theory Spec2Isabelle
  imports Complex_Main
begin

section \<open>JavaScript values used by the screen-capture plugin\<close>

text \<open>
  A JavaScript number is \<open>NaN\<close>, an infinity or a finite value. Every finite double
  is a rational, and \<open>Math.round\<close>, \<open>Math.min\<close>, \<open>Math.max\<close> and the comparisons
  used below are exact on doubles, so finite numbers are modelled as rationals. The
  model does not tell \<open>-0\<close> from \<open>+0\<close>, and \<open>parseInt\<close> of a digit string beyond
  \<open>2^53\<close> is the exact integer where JavaScript gives the nearest double.
\<close>

datatype jsnum = NaN | NegInf | Fin rat | PosInf

text \<open>The values a tool parameter or a configuration field can hold.\<close>

datatype jsval = Undefined | Null | Boolean bool | Number jsnum | String string

text \<open>\<open>a === b\<close> on numbers: \<open>NaN\<close> equals nothing, itself included.\<close>

definition js_eq :: "jsnum \<Rightarrow> jsnum \<Rightarrow> bool" where
  "js_eq a b = (a \<noteq> NaN \<and> b \<noteq> NaN \<and> a = b)"

text \<open>\<open>a > b\<close> on numbers; any comparison with \<open>NaN\<close> is false.\<close>

fun js_gt :: "jsnum \<Rightarrow> jsnum \<Rightarrow> bool" where
  "js_gt NaN _ = False"
| "js_gt _ NaN = False"
| "js_gt NegInf _ = False"
| "js_gt _ PosInf = False"
| "js_gt PosInf _ = True"
| "js_gt (Fin a) NegInf = True"
| "js_gt (Fin a) (Fin b) = (a > b)"

text \<open>\<open>Math.max\<close> and \<open>Math.min\<close> of two numbers: \<open>NaN\<close> if either is \<open>NaN\<close>.\<close>

fun Math_max :: "jsnum \<Rightarrow> jsnum \<Rightarrow> jsnum" where
  "Math_max NaN _ = NaN"
| "Math_max _ NaN = NaN"
| "Math_max PosInf _ = PosInf"
| "Math_max _ PosInf = PosInf"
| "Math_max NegInf b = b"
| "Math_max a NegInf = a"
| "Math_max (Fin a) (Fin b) = Fin (max a b)"

fun Math_min :: "jsnum \<Rightarrow> jsnum \<Rightarrow> jsnum" where
  "Math_min NaN _ = NaN"
| "Math_min _ NaN = NaN"
| "Math_min NegInf _ = NegInf"
| "Math_min _ NegInf = NegInf"
| "Math_min PosInf b = b"
| "Math_min a PosInf = a"
| "Math_min (Fin a) (Fin b) = Fin (min a b)"

text \<open>
  \<open>Math.round\<close>: the nearest integer, a tie going towards \<open>+\<infinity>\<close>, which is
  \<open>floor (x + 1/2)\<close>; \<open>NaN\<close> and the infinities are returned unchanged.
\<close>

fun Math_round :: "jsnum \<Rightarrow> jsnum" where
  "Math_round (Fin a) = Fin (of_int \<lfloor>a + 1 / 2\<rfloor>)"
| "Math_round x = x"

text \<open>
  \<open>a + b\<close> and \<open>a * b\<close> on numbers. On finite values they are the exact sum and
  product, which is what doubles give on the integers below \<open>2^53\<close>; on other finite
  values a double may differ from them by its rounding.
\<close>

fun js_add :: "jsnum \<Rightarrow> jsnum \<Rightarrow> jsnum" where
  "js_add NaN _ = NaN"
| "js_add _ NaN = NaN"
| "js_add PosInf NegInf = NaN"
| "js_add NegInf PosInf = NaN"
| "js_add PosInf _ = PosInf"
| "js_add _ PosInf = PosInf"
| "js_add NegInf _ = NegInf"
| "js_add _ NegInf = NegInf"
| "js_add (Fin a) (Fin b) = Fin (a + b)"

fun js_mul :: "jsnum \<Rightarrow> jsnum \<Rightarrow> jsnum" where
  "js_mul NaN _ = NaN"
| "js_mul _ NaN = NaN"
| "js_mul (Fin a) (Fin b) = Fin (a * b)"
| "js_mul (Fin a) PosInf = (if a = 0 then NaN else if 0 < a then PosInf else NegInf)"
| "js_mul (Fin a) NegInf = (if a = 0 then NaN else if 0 < a then NegInf else PosInf)"
| "js_mul PosInf (Fin b) = (if b = 0 then NaN else if 0 < b then PosInf else NegInf)"
| "js_mul NegInf (Fin b) = (if b = 0 then NaN else if 0 < b then NegInf else PosInf)"
| "js_mul PosInf PosInf = PosInf"
| "js_mul PosInf NegInf = NegInf"
| "js_mul NegInf PosInf = NegInf"
| "js_mul NegInf NegInf = PosInf"

section \<open>Strings: trim, split, parseInt\<close>

text \<open>The ASCII white space and line terminators that \<open>String.prototype.trim\<close> strips.\<close>

definition is_ws :: "char \<Rightarrow> bool" where
  "is_ws c = (c \<in> {CHR 0x09, CHR 0x0A, CHR 0x0B, CHR 0x0C, CHR 0x0D, CHR '' ''})"

definition trim :: "string \<Rightarrow> string" where
  "trim s = rev (dropWhile is_ws (rev (dropWhile is_ws s)))"

text \<open>\<open>s.split(c)\<close> for a one-character separator: never empty, \<open>"".split(c) = [""]\<close>.\<close>

fun split_on :: "char \<Rightarrow> string \<Rightarrow> string list" where
  "split_on c [] = [[]]"
| "split_on c (x # xs) =
     (if x = c then [] # split_on c xs
      else (case split_on c xs of
              [] \<Rightarrow> [[x]]
            | y # ys \<Rightarrow> (x # y) # ys))"

text \<open>
  Array destructuring \<open>const [a, b, ...] = fields\<close>: a position beyond the end of the
  array is \<open>undefined\<close>, here \<open>None\<close>.
\<close>

definition field :: "string list \<Rightarrow> nat \<Rightarrow> string option" where
  "field fs i = (if i < length fs then Some (fs ! i) else None)"

definition is_digit :: "char \<Rightarrow> bool" where
  "is_digit c = (48 \<le> (of_char c :: nat) \<and> (of_char c :: nat) \<le> 57)"

definition digit_val :: "char \<Rightarrow> int" where
  "digit_val c = int (of_char c) - 48"

definition digits_val :: "string \<Rightarrow> int" where
  "digits_val ds = foldl (\<lambda>acc c. 10 * acc + digit_val c) 0 ds"

text \<open>
  \<open>parseInt(s, 10)\<close> on a string: leading white space is skipped, one sign is read,
  then the longest run of decimal digits; no digit gives \<open>NaN\<close>.
\<close>

definition parseInt_str :: "string \<Rightarrow> jsnum" where
  "parseInt_str s =
     (let s1 = dropWhile is_ws s;
          sgn_rest = (case s1 of
                        [] \<Rightarrow> (1, [])
                      | c # r \<Rightarrow> if c = CHR ''-'' then (- 1, r)
                                else if c = CHR ''+'' then (1, r)
                                else (1, s1));
          ds = takeWhile is_digit (snd sgn_rest)
      in if ds = [] then NaN else Fin (of_int (fst sgn_rest * digits_val ds)))"

text \<open>
  \<open>parseInt(v, 10)\<close> on a destructured field: \<open>undefined\<close> is first converted to the
  string \<open>"undefined"\<close>.
\<close>

definition parseInt :: "string option \<Rightarrow> jsnum" where
  "parseInt v = parseInt_str (case v of None \<Rightarrow> ''undefined'' | Some s \<Rightarrow> s)"

section \<open>Monitor enumeration: parsing the backend's output\<close>

text \<open>
  The object built for each line by \<open>list_monitors\<close>; \<open>name\<close> is \<open>undefined\<close>
  (\<open>None\<close>) when the line has no second field.
\<close>

record MonitorDescriptor =
  m_index :: jsnum
  m_name :: "string option"
  m_width :: jsnum
  m_height :: jsnum
  m_x :: jsnum
  m_y :: jsnum
  m_primary :: bool

record MonitorBounds =
  b_x :: jsnum
  b_y :: jsnum
  b_width :: jsnum
  b_height :: jsnum

definition newline :: char where
  "newline = CHR 0x0A"

definition bar :: char where
  "bar = CHR ''|''"

text \<open>\<open>output.trim().split("\n").filter(Boolean)\<close>: the lines that are not the empty string.\<close>

definition output_lines :: "string \<Rightarrow> string list" where
  "output_lines output = filter (\<lambda>l. l \<noteq> []) (split_on newline (trim output))"

text \<open>The callback of \<open>.map\<close> in \<open>list_monitors\<close>.\<close>

definition monitor_of_line :: "string \<Rightarrow> MonitorDescriptor" where
  "monitor_of_line line =
     (let fs = split_on bar (trim line)
      in \<lparr> m_index = parseInt (field fs 0),
           m_name = map_option trim (field fs 1),
           m_width = parseInt (field fs 2),
           m_height = parseInt (field fs 3),
           m_x = parseInt (field fs 4),
           m_y = parseInt (field fs 5),
           m_primary = (field fs 6 = Some ''PRIMARY'') \<rparr>)"

definition monitors_of_output :: "string \<Rightarrow> MonitorDescriptor list" where
  "monitors_of_output output = map monitor_of_line (output_lines output)"

text \<open>The bounds read from the fields 1 to 4 of a line, in \<open>getMonitorBounds\<close>.\<close>

definition bounds_of_line :: "string \<Rightarrow> MonitorBounds" where
  "bounds_of_line line =
     (let fs = split_on bar (trim line)
      in \<lparr> b_x = parseInt (field fs 1),
           b_y = parseInt (field fs 2),
           b_width = parseInt (field fs 3),
           b_height = parseInt (field fs 4) \<rparr>)"

text \<open>The index echoed at the start of a line, as both parsers read it.\<close>

definition echoed_index :: "string \<Rightarrow> jsnum" where
  "echoed_index line = parseInt (field (split_on bar (trim line)) 0)"

text \<open>
  The loop \<open>for (const line of lines)\<close> of \<open>getMonitorBounds\<close>: the first line
  whose echoed index is \<open>===\<close> the requested one.
\<close>

fun find_bounds :: "string list \<Rightarrow> jsnum \<Rightarrow> MonitorBounds option" where
  "find_bounds [] monitorIndex = None"
| "find_bounds (line # rest) monitorIndex =
     (if js_eq (echoed_index line) monitorIndex then Some (bounds_of_line line)
      else find_bounds rest monitorIndex)"

text \<open>
  What \<open>getMonitorBounds\<close> returns once the enumeration script has printed
  \<open>output\<close>: the match, else the first line's bounds, else \<open>null\<close>.
\<close>

definition bounds_of_output :: "string \<Rightarrow> jsnum \<Rightarrow> MonitorBounds option" where
  "bounds_of_output output monitorIndex =
     (let lines = output_lines output
      in case find_bounds lines monitorIndex of
           Some b \<Rightarrow> Some b
         | None \<Rightarrow> (case lines of
                      [] \<Rightarrow> None
                    | l0 # _ \<Rightarrow> Some (bounds_of_line l0)))"


section \<open>Configuration, parameters and results\<close>

datatype ScreenshotFormat = Png | Jpeg

fun format_str :: "ScreenshotFormat \<Rightarrow> string" where
  "format_str Png = ''png''"
| "format_str Jpeg = ''jpeg''"

text \<open>\<open>ScreenCaptureConfig\<close> of \<open>config.ts\<close>; an absent field is \<open>None\<close>.\<close>

record ScreenCaptureConfig =
  ffmpegPath :: "string option"
  defaultMonitor :: "jsnum option"
  screenshotFormat :: "ScreenshotFormat option"
  maxVideoDuration :: "jsnum option"

text \<open>\<open>params: Record<string, unknown>\<close>: a key that is absent reads as \<open>undefined\<close>.\<close>

type_synonym params = "string \<Rightarrow> jsval"

text \<open>The payloads handed to \<open>jsonResult\<close> and \<open>imageResultFromFile\<close>.\<close>

datatype json =
    JUndefined
  | JNull
  | JBool bool
  | JNum jsnum
  | JStr string
  | JArr "json list"
  | JObj "(string \<times> json) list"

text \<open>What the media store returns from \<open>saveMediaBuffer\<close>.\<close>

record SavedMedia =
  s_path :: string
  s_size :: jsnum
  s_contentType :: string

text \<open>
  A tool returns either \<open>jsonResult(payload)\<close> or what \<open>imageResultFromFile\<close> makes
  of its argument object (label, path, extraText, details).
\<close>

datatype tool_result =
    JsonResult json
  | ImageResult string string string json

fun json_get :: "string \<Rightarrow> json \<Rightarrow> json" where
  "json_get k (JObj kvs) = (case map_of kvs k of Some v \<Rightarrow> v | None \<Rightarrow> JUndefined)"
| "json_get k _ = JUndefined"

text \<open>A result is an error result when its payload has an \<open>error\<close> property.\<close>

fun is_error :: "tool_result \<Rightarrow> bool" where
  "is_error (JsonResult p) = (json_get ''error'' p \<noteq> JUndefined)"
| "is_error (ImageResult _ _ _ _) = False"

fun result_error :: "tool_result \<Rightarrow> json" where
  "result_error (JsonResult p) = json_get ''error'' p"
| "result_error (ImageResult _ _ _ _) = JUndefined"

fun result_details :: "tool_result \<Rightarrow> json" where
  "result_details (JsonResult p) = json_get ''details'' p"
| "result_details (ImageResult _ _ _ d) = d"

text \<open>The path a result refers to: \<open>path\<close> of the payload, or the image's path.\<close>

fun result_path :: "tool_result \<Rightarrow> json" where
  "result_path (JsonResult p) = json_get ''path'' p"
| "result_path (ImageResult _ p _ _) = JStr p"

fun jnum_opt :: "jsnum option \<Rightarrow> json" where
  "jnum_opt None = JUndefined"
| "jnum_opt (Some n) = JNum n"

definition json_of_monitor :: "MonitorDescriptor \<Rightarrow> json" where
  "json_of_monitor m =
     JObj [(''index'', JNum (m_index m)),
           (''name'', case m_name m of None \<Rightarrow> JUndefined | Some n \<Rightarrow> JStr n),
           (''width'', JNum (m_width m)),
           (''height'', JNum (m_height m)),
           (''x'', JNum (m_x m)),
           (''y'', JNum (m_y m)),
           (''primary'', JBool (m_primary m))]"

definition json_of_bounds :: "MonitorBounds option \<Rightarrow> json" where
  "json_of_bounds b =
     (case b of
        None \<Rightarrow> JNull
      | Some r \<Rightarrow> JObj [(''x'', JNum (b_x r)), (''y'', JNum (b_y r)),
                        (''width'', JNum (b_width r)), (''height'', JNum (b_height r))])"

section \<open>The world outside: disk, subprocesses, media store\<close>

type_synonym path = string

text \<open>The scripts the plugin generates, by their parameters.\<close>

datatype file_content =
    ScreenshotScript path jsnum ScreenshotFormat
  | ListMonitorsScript
  | GetMonitorBoundsScript
  | Bytes string

text \<open>Each call that leaves the process is recorded, in the order the calls are made.\<close>

datatype event =
    EWriteFile path file_content
  | EExec string
  | EProbe string bool
  | ECapture string "string list"
  | EUnlink path
  | EStat path
  | EReadFile path
  | ESave string string
  | EImageResult string
  | ESleep jsnum
  | ELogInfo string
  | ELogWarn string
  | ERegisterTool string

record world =
  files :: "path \<Rightarrow> file_content option"
  trace :: "event list"
  uuids :: nat

text \<open>
  What the environment answers. A subprocess is modelled by its outcome and by the one
  file it leaves at its output path; nothing else on disk changes. \<open>spawnSync\<close>
  reports a failed spawn or a timeout in its result, so it has a status or none; it
  throws only on options it rejects before anything is run. In \<open>findFfmpeg\<close> the
  options are constants and a throw would be swallowed in any case; for the capture the
  \<open>timeout\<close> option is computed from the duration, and \<open>timeout_error\<close> is the
  message of the range error thrown on a value that is rejected. Number-to-string
  conversion is the runtime's and is left abstract.
\<close>

record env =
  tmpdir :: path
  homedir :: path
  platform :: string
  randomUUID :: "nat \<Rightarrow> string"
  String_of :: "jsnum \<Rightarrow> string"
  writeFile_error :: "path \<Rightarrow> string option"
  exec_outcome :: "string \<Rightarrow> string + string"
  exec_saves :: "string \<Rightarrow> string option"
  probe_status :: "string \<Rightarrow> bool \<Rightarrow> int option"
  timeout_error :: "jsnum \<Rightarrow> string"
  capture_status :: "string \<Rightarrow> string list \<Rightarrow> int option"
  capture_saves :: "string \<Rightarrow> string list \<Rightarrow> string option"
  unlink_fails :: "path \<Rightarrow> bool"
  fs_error :: "path \<Rightarrow> string"
  saveMediaBuffer :: "string \<Rightarrow> string \<Rightarrow> string \<Rightarrow> nat \<Rightarrow> string \<Rightarrow> string + SavedMedia"
  imageResult_error :: "string \<Rightarrow> string option"

definition emit :: "event \<Rightarrow> world \<Rightarrow> world" where
  "emit ev w = w\<lparr>trace := trace w @ [ev]\<rparr>"

text \<open>\<open>path.join(dir, file)\<close> on Windows, for a plain file name.\<close>

definition path_join :: "path \<Rightarrow> string \<Rightarrow> path" where
  "path_join dir file = dir @ [CHR 0x5C] @ file"

text \<open>\<open>crypto.randomUUID()\<close>: the next identifier of the environment's sequence.\<close>

definition next_uuid :: "env \<Rightarrow> world \<Rightarrow> string \<times> world" where
  "next_uuid e w = (randomUUID e (uuids w), w\<lparr>uuids := Suc (uuids w)\<rparr>)"

text \<open>\<open>fsSync.writeFileSync(p, content)\<close>: throws (\<open>Inl\<close>) or creates the file.\<close>

definition writeFileSync :: "env \<Rightarrow> path \<Rightarrow> file_content \<Rightarrow> world \<Rightarrow> (string + unit) \<times> world" where
  "writeFileSync e p content w =
     (let w1 = emit (EWriteFile p content) w
      in case writeFile_error e p of
           Some msg \<Rightarrow> (Inl msg, w1)
         | None \<Rightarrow> (Inr (), w1\<lparr>files := (files w1)(p \<mapsto> content)\<rparr>))"

text \<open>
  \<open>fs.unlink(p).catch(() => {})\<close>: the deletion is attempted and its failure is
  swallowed. The deletion is started without being awaited; the model performs it at
  the point where it is started.
\<close>

definition unlink :: "env \<Rightarrow> path \<Rightarrow> world \<Rightarrow> world" where
  "unlink e p w =
     (let w1 = emit (EUnlink p) w
      in if unlink_fails e p then w1 else w1\<lparr>files := (files w1)(p := None)\<rparr>)"

text \<open>\<open>fsSync.unlinkSync(p)\<close>: throws when the file is missing or cannot be deleted.\<close>

definition unlinkSync :: "env \<Rightarrow> path \<Rightarrow> world \<Rightarrow> (string + unit) \<times> world" where
  "unlinkSync e p w =
     (let w1 = emit (EUnlink p) w
      in if files w p = None \<or> unlink_fails e p then (Inl (fs_error e p), w1)
         else (Inr (), w1\<lparr>files := (files w1)(p := None)\<rparr>))"

text \<open>The command line both tools pass to \<open>execSync\<close>.\<close>

definition powershell_cmd :: "path \<Rightarrow> string" where
  "powershell_cmd scriptPath =
     ''powershell -NoProfile -ExecutionPolicy Bypass -File '' @ [CHR 0x22] @ scriptPath @ [CHR 0x22]"

text \<open>
  \<open>execSync(cmd)\<close>: throws on a non-zero exit, a timeout or a failed spawn
  (\<open>Inl\<close>), else returns the standard output.
\<close>

definition execSync :: "env \<Rightarrow> string \<Rightarrow> world \<Rightarrow> (string + string) \<times> world" where
  "execSync e cmd w = (exec_outcome e cmd, emit (EExec cmd) w)"

text \<open>
  Running the screenshot script: besides its outcome, the script may have saved the
  bitmap at \<open>outputPath\<close> (\<open>$bitmap.Save\<close>), the only file it writes.
\<close>

definition exec_screenshot :: "env \<Rightarrow> path \<Rightarrow> path \<Rightarrow> world \<Rightarrow> (string + string) \<times> world" where
  "exec_screenshot e scriptPath outputPath w =
     (case execSync e (powershell_cmd scriptPath) w of
        (r, w1) \<Rightarrow>
          (r, case exec_saves e (powershell_cmd scriptPath) of
                None \<Rightarrow> w1
              | Some b \<Rightarrow> w1\<lparr>files := (files w1)(outputPath \<mapsto> Bytes b)\<rparr>))"

text \<open>\<open>fs.readFile(p)\<close>: throws when there is no file at \<open>p\<close>.\<close>

definition content_bytes :: "file_content \<Rightarrow> string" where
  "content_bytes c = (case c of Bytes b \<Rightarrow> b | _ \<Rightarrow> [])"

definition readFile :: "env \<Rightarrow> path \<Rightarrow> world \<Rightarrow> (string + string) \<times> world" where
  "readFile e p w =
     (let w1 = emit (EReadFile p) w
      in case files w p of
           None \<Rightarrow> (Inl (fs_error e p), w1)
         | Some c \<Rightarrow> (Inr (content_bytes c), w1))"

text \<open>\<open>fs.stat(p)\<close>: throws when there is no file at \<open>p\<close>, else gives its size.\<close>

definition stat :: "env \<Rightarrow> path \<Rightarrow> world \<Rightarrow> (string + nat) \<times> world" where
  "stat e p w =
     (let w1 = emit (EStat p) w
      in case files w p of
           None \<Rightarrow> (Inl (fs_error e p), w1)
         | Some c \<Rightarrow> (Inr (length (content_bytes c)), w1))"

text \<open>The local \<open>saveMediaBuffer\<close> wrapper: the media store saves or throws.\<close>

definition save :: "env \<Rightarrow> string \<Rightarrow> string \<Rightarrow> string \<Rightarrow> nat \<Rightarrow> string \<Rightarrow> world
    \<Rightarrow> (string + SavedMedia) \<times> world" where
  "save e buffer contentType subdir maxBytes filename w =
     (saveMediaBuffer e buffer contentType subdir maxBytes filename, emit (ESave subdir filename) w)"


section \<open>list_monitors\<close>

definition list_monitors_hint :: string where
  "list_monitors_hint =
     ''Use the 'monitor' parameter in take_screenshot or record_screen to capture a specific monitor by index.''"

text \<open>The \<open>try\<close> block of \<open>list_monitors\<close>; \<open>Inl message\<close> is a thrown error.\<close>

definition list_monitors_try :: "env \<Rightarrow> path \<Rightarrow> world \<Rightarrow> (string + tool_result) \<times> world" where
  "list_monitors_try e scriptPath w =
     (case writeFileSync e scriptPath ListMonitorsScript w of
        (Inl msg, w1) \<Rightarrow> (Inl msg, w1)
      | (Inr _, w1) \<Rightarrow>
          (case execSync e (powershell_cmd scriptPath) w1 of
             (Inl msg, w2) \<Rightarrow> (Inl msg, w2)
           | (Inr output, w2) \<Rightarrow>
               (let w3 = unlink e scriptPath w2;
                    monitors = monitors_of_output output
                in (Inr (JsonResult (JObj
                      [(''monitors'', JArr (map json_of_monitor monitors)),
                       (''count'', JNum (Fin (of_nat (length monitors)))),
                       (''hint'', JStr list_monitors_hint)])), w3))))"

definition list_monitors_scriptPath :: "env \<Rightarrow> world \<Rightarrow> path" where
  "list_monitors_scriptPath e w =
     path_join (tmpdir e) (''list-monitors-'' @ fst (next_uuid e w) @ ''.ps1'')"

definition list_monitors :: "env \<Rightarrow> world \<Rightarrow> tool_result \<times> world" where
  "list_monitors e w0 =
     (let scriptPath = list_monitors_scriptPath e w0;
          w1 = snd (next_uuid e w0)
      in case list_monitors_try e scriptPath w1 of
           (Inr res, w2) \<Rightarrow> (res, w2)
         | (Inl message, w2) \<Rightarrow>
             (JsonResult (JObj [(''error'', JStr ''Failed to list monitors''),
                                (''details'', JStr message)]),
              unlink e scriptPath w2))"

section \<open>getMonitorBounds\<close>

text \<open>
  The \<open>try\<close> block of \<open>getMonitorBounds\<close>. The script is deleted with
  \<open>unlinkSync\<close>, which throws into the \<open>catch\<close> block when it fails.
\<close>

definition getMonitorBounds_try :: "env \<Rightarrow> path \<Rightarrow> jsnum \<Rightarrow> world
    \<Rightarrow> (string + MonitorBounds option) \<times> world" where
  "getMonitorBounds_try e scriptPath monitorIndex w =
     (case writeFileSync e scriptPath GetMonitorBoundsScript w of
        (Inl msg, w1) \<Rightarrow> (Inl msg, w1)
      | (Inr _, w1) \<Rightarrow>
          (case execSync e (powershell_cmd scriptPath) w1 of
             (Inl msg, w2) \<Rightarrow> (Inl msg, w2)
           | (Inr output, w2) \<Rightarrow>
               (case unlinkSync e scriptPath w2 of
                  (Inl msg, w3) \<Rightarrow> (Inl msg, w3)
                | (Inr _, w3) \<Rightarrow> (Inr (bounds_of_output output monitorIndex), w3))))"

definition getMonitorBounds_scriptPath :: "env \<Rightarrow> world \<Rightarrow> path" where
  "getMonitorBounds_scriptPath e w =
     path_join (tmpdir e) (''get-monitor-bounds-'' @ fst (next_uuid e w) @ ''.ps1'')"

definition getMonitorBounds :: "env \<Rightarrow> jsnum \<Rightarrow> world \<Rightarrow> MonitorBounds option \<times> world" where
  "getMonitorBounds e monitorIndex w0 =
     (let scriptPath = getMonitorBounds_scriptPath e w0;
          w1 = snd (next_uuid e w0)
      in case getMonitorBounds_try e scriptPath monitorIndex w1 of
           (Inr b, w2) \<Rightarrow> (b, w2)
         | (Inl _, w2) \<Rightarrow> (None, snd (unlinkSync e scriptPath w2)))"

section \<open>findFfmpeg\<close>

text \<open>
  One \<open>spawnSync(candidate, ["-version"], ...)\<close>; a candidate is accepted when the
  status is \<open>0\<close>. The flag records \<open>shell: true\<close>.
\<close>

definition probe :: "env \<Rightarrow> string \<Rightarrow> bool \<Rightarrow> world \<Rightarrow> bool \<times> world" where
  "probe e candidate shell w =
     (probe_status e candidate shell = Some 0, emit (EProbe candidate shell) w)"

fun join_path :: "path \<Rightarrow> string list \<Rightarrow> path" where
  "join_path dir [] = dir"
| "join_path dir (a # as) = join_path (path_join dir a) as"

definition commonPaths :: "env \<Rightarrow> path list" where
  "commonPaths e =
     [join_path ''C:'' [''ffmpeg'', ''bin'', ''ffmpeg.exe''],
      join_path ''C:'' [''Program Files'', ''ffmpeg'', ''bin'', ''ffmpeg.exe''],
      join_path ''C:'' [''Program Files (x86)'', ''ffmpeg'', ''bin'', ''ffmpeg.exe''],
      join_path (homedir e) [''ffmpeg'', ''bin'', ''ffmpeg.exe''],
      join_path (homedir e) [''scoop'', ''shims'', ''ffmpeg.exe'']]"

text \<open>The loop \<open>for (const p of commonPaths)\<close>.\<close>

fun probe_paths :: "env \<Rightarrow> path list \<Rightarrow> world \<Rightarrow> string option \<times> world" where
  "probe_paths e [] w = (None, w)"
| "probe_paths e (p # ps) w =
     (case probe e p False w of
        (ok, w1) \<Rightarrow> if ok then (Some p, w1) else probe_paths e ps w1)"

text \<open>\<open>if (configPath)\<close>: a string is truthy when it is not empty.\<close>

definition truthy_path :: "string option \<Rightarrow> bool" where
  "truthy_path v = (case v of None \<Rightarrow> False | Some s \<Rightarrow> s \<noteq> [])"

definition findFfmpeg :: "env \<Rightarrow> string option \<Rightarrow> world \<Rightarrow> string option \<times> world" where
  "findFfmpeg e configPath w =
     (case (if truthy_path configPath
            then (case probe e (the configPath) False w of
                    (ok, w1) \<Rightarrow> (if ok then configPath else None, w1))
            else (None, w)) of
        (Some p, w1) \<Rightarrow> (Some p, w1)
      | (None, w1) \<Rightarrow>
          (case probe e ''ffmpeg'' True w1 of
             (ok, w2) \<Rightarrow> if ok then (Some ''ffmpeg'', w2)
                         else probe_paths e (commonPaths e) w2))"

section \<open>record_screen\<close>

definition maxDuration :: "ScreenCaptureConfig \<Rightarrow> jsnum" where
  "maxDuration cfg = (case maxVideoDuration cfg of Some m \<Rightarrow> m | None \<Rightarrow> Fin 60)"

text \<open>The validated duration; \<open>None\<close> is the \<open>null\<close> of a missing or non-numeric one.\<close>

definition record_duration :: "ScreenCaptureConfig \<Rightarrow> params \<Rightarrow> jsnum option" where
  "record_duration cfg params =
     (case params ''duration'' of
        Number d \<Rightarrow> Some (Math_min (Math_max (Math_round d) (Fin 1)) (maxDuration cfg))
      | _ \<Rightarrow> None)"

definition record_monitorIndex :: "params \<Rightarrow> jsnum option" where
  "record_monitorIndex params =
     (case params ''monitor'' of Number m \<Rightarrow> Some m | _ \<Rightarrow> None)"

definition record_fps :: "params \<Rightarrow> jsnum" where
  "record_fps params =
     (case params ''fps'' of
        Number f \<Rightarrow> Math_min (Math_max (Math_round f) (Fin 10)) (Fin 60)
      | _ \<Rightarrow> Fin 30)"

definition ffmpeg_args :: "env \<Rightarrow> jsnum \<Rightarrow> MonitorBounds option \<Rightarrow> jsnum \<Rightarrow> path \<Rightarrow> string list" where
  "ffmpeg_args e fps monitorBounds duration outputPath =
     [''-f'', ''gdigrab'', ''-framerate'', String_of e fps]
     @ (case monitorBounds of
          None \<Rightarrow> []
        | Some b \<Rightarrow> [''-offset_x'', String_of e (b_x b),
                     ''-offset_y'', String_of e (b_y b),
                     ''-video_size'', String_of e (b_width b) @ ''x'' @ String_of e (b_height b)])
     @ [''-i'', ''desktop'', ''-t'', String_of e duration,
        ''-vf'', ''pad=ceil(iw/2)*2:ceil(ih/2)*2'',
        ''-c:v'', ''libx264'', ''-pix_fmt'', ''yuv420p'', ''-preset'', ''ultrafast'',
        ''-y'', outputPath]"

text \<open>The \<open>timeout\<close> option of the capture: \<open>(duration + 30) * 1000\<close>.\<close>

definition capture_timeout :: "jsnum \<Rightarrow> jsnum" where
  "capture_timeout duration = js_mul (js_add duration (Fin 30)) (Fin 1000)"

text \<open>
  \<open>spawnSync\<close> validates its \<open>timeout\<close> option before it runs anything: the value
  has to be an integer from \<open>0\<close> to \<open>2^53 - 1\<close>.
\<close>

definition valid_timeout :: "jsnum \<Rightarrow> bool" where
  "valid_timeout t =
     (case t of
        Fin q \<Rightarrow> of_int \<lfloor>q\<rfloor> = q \<and> 0 \<le> q \<and> q \<le> 9007199254740991
      | _ \<Rightarrow> False)"

text \<open>
  The capture \<open>spawnSync(ffmpeg, args, {timeout, ...})\<close>: on a \<open>timeout\<close> it rejects
  it throws (\<open>Inl\<close>) and nothing is run; otherwise the encoder runs, and the call
  gives its status and leaves the file the encoder has written at \<open>outputPath\<close>, if
  any.
\<close>

definition spawn_capture :: "env \<Rightarrow> string \<Rightarrow> string list \<Rightarrow> jsnum \<Rightarrow> path \<Rightarrow> world
    \<Rightarrow> (string + int option) \<times> world" where
  "spawn_capture e ffmpeg args timeout outputPath w =
     (if valid_timeout timeout
      then (let w1 = emit (ECapture ffmpeg args) w
            in (Inr (capture_status e ffmpeg args),
                case capture_saves e ffmpeg args of
                  None \<Rightarrow> w1
                | Some b \<Rightarrow> w1\<lparr>files := (files w1)(outputPath \<mapsto> Bytes b)\<rparr>))
      else (Inl (timeout_error e timeout), w))"

definition recording_success :: "(jsnum \<Rightarrow> string) \<Rightarrow> jsnum \<Rightarrow> jsnum \<Rightarrow> jsnum option
    \<Rightarrow> MonitorBounds option \<Rightarrow> SavedMedia \<Rightarrow> json" where
  "recording_success str duration fps monitorIndex monitorBounds saved =
     (let monitorDesc = (case monitorIndex of
                           Some m \<Rightarrow> ''monitor '' @ str m
                         | None \<Rightarrow> ''all monitors'')
      in JObj [(''success'', JBool True),
               (''message'', JStr (''Recorded '' @ str duration @ ''s of '' @ monitorDesc
                                   @ '' at '' @ str fps @ ''fps'')),
               (''path'', JStr (s_path saved)),
               (''size'', JNum (s_size saved)),
               (''contentType'', JStr (s_contentType saved)),
               (''duration'', JNum duration),
               (''fps'', JNum fps),
               (''monitor'', jnum_opt monitorIndex),
               (''monitorBounds'', json_of_bounds monitorBounds)])"

text \<open>
  The first half of the \<open>try\<close> block of \<open>record_screen\<close>: the command line is
  built, the start is logged and the encoder runs.
\<close>

definition record_run :: "env \<Rightarrow> string \<Rightarrow> jsnum \<Rightarrow> jsnum \<Rightarrow> MonitorBounds option \<Rightarrow> path
    \<Rightarrow> world \<Rightarrow> (string + int option) \<times> world" where
  "record_run e ffmpeg duration fps monitorBounds outputPath w =
     (let args = ffmpeg_args e fps monitorBounds duration outputPath;
          w1 = emit (ELogInfo (''Recording screen for '' @ String_of e duration @ ''s...'')) w
      in spawn_capture e ffmpeg args (capture_timeout duration) outputPath w1)"

text \<open>
  The second half: the output file is verified, read, saved to the media store and
  deleted. \<open>Inl message\<close> is a thrown error.
\<close>

definition record_verify :: "env \<Rightarrow> jsnum \<Rightarrow> jsnum \<Rightarrow> jsnum option \<Rightarrow> MonitorBounds option
    \<Rightarrow> path \<Rightarrow> world \<Rightarrow> (string + tool_result) \<times> world" where
  "record_verify e duration fps monitorIndex monitorBounds outputPath w2 =
     (case stat e outputPath w2 of
        (Inl _, w3) \<Rightarrow> (Inl ''Recording failed - no output file created'', w3)
      | (Inr sz, w3) \<Rightarrow>
          if sz = 0 then (Inl ''Recording produced empty file'', w3)
          else (case readFile e outputPath w3 of
                  (Inl msg, w4) \<Rightarrow> (Inl msg, w4)
                | (Inr videoBuffer, w4) \<Rightarrow>
                    (case save e videoBuffer ''video/mp4'' ''recordings'' (100 * 1024 * 1024)
                            (''screen-recording-'' @ String_of e duration @ ''s.mp4'') w4 of
                       (Inl msg, w5) \<Rightarrow> (Inl msg, w5)
                     | (Inr saved, w5) \<Rightarrow>
                         (Inr (JsonResult (recording_success (String_of e) duration fps
                                             monitorIndex monitorBounds saved)),
                          unlink e outputPath w5))))"

text \<open>The \<open>try\<close> block: the status the encoder returns is not read.\<close>

definition record_try :: "env \<Rightarrow> string \<Rightarrow> jsnum \<Rightarrow> jsnum \<Rightarrow> jsnum option \<Rightarrow> MonitorBounds option
    \<Rightarrow> path \<Rightarrow> world \<Rightarrow> (string + tool_result) \<times> world" where
  "record_try e ffmpeg duration fps monitorIndex monitorBounds outputPath w =
     (case record_run e ffmpeg duration fps monitorBounds outputPath w of
        (Inl msg, w2) \<Rightarrow> (Inl msg, w2)
      | (Inr _, w2) \<Rightarrow> record_verify e duration fps monitorIndex monitorBounds outputPath w2)"

definition record_outputPath :: "env \<Rightarrow> world \<Rightarrow> path" where
  "record_outputPath e w =
     path_join (tmpdir e) (''recording-'' @ fst (next_uuid e w) @ ''.mp4'')"

text \<open>From the allocation of the output path to the end of \<open>execute\<close>.\<close>

definition record_capture :: "env \<Rightarrow> string \<Rightarrow> jsnum \<Rightarrow> jsnum \<Rightarrow> jsnum option \<Rightarrow> MonitorBounds option
    \<Rightarrow> world \<Rightarrow> tool_result \<times> world" where
  "record_capture e ffmpeg duration fps monitorIndex monitorBounds w0 =
     (let outputPath = record_outputPath e w0;
          w1 = snd (next_uuid e w0)
      in case record_try e ffmpeg duration fps monitorIndex monitorBounds outputPath w1 of
           (Inr res, w2) \<Rightarrow> (res, w2)
         | (Inl message, w2) \<Rightarrow>
             (JsonResult (JObj
                [(''error'', JStr ''Screen recording failed''),
                 (''details'', JStr message),
                 (''hint'', JStr ''Ensure FFmpeg is installed and accessible. Try: winget install ffmpeg'')]),
              unlink e outputPath w2))"

definition ffmpeg_not_found :: json where
  "ffmpeg_not_found =
     JObj [(''error'', JStr ''FFmpeg not found''),
           (''hint'', JStr ''Install FFmpeg: winget install ffmpeg, or download from ffmpeg.org and add to PATH, or set ffmpegPath in plugin config'')]"

definition record_screen :: "env \<Rightarrow> ScreenCaptureConfig \<Rightarrow> params \<Rightarrow> world \<Rightarrow> tool_result \<times> world" where
  "record_screen e cfg params w0 =
     (case record_duration cfg params of
        None \<Rightarrow>
          (JsonResult (JObj
             [(''error'', JStr ''duration is required''),
              (''hint'', JStr (''Specify duration in seconds (1-'' @ String_of e (maxDuration cfg) @ '')''))]),
           w0)
      | Some duration \<Rightarrow>
          (let monitorIndex = record_monitorIndex params;
               fps = record_fps params
           in case findFfmpeg e (ffmpegPath cfg) w0 of
                (ffmpeg, w1) \<Rightarrow>
                  if \<not> truthy_path ffmpeg then (JsonResult ffmpeg_not_found, w1)
                  else (case monitorIndex of
                          None \<Rightarrow> record_capture e (the ffmpeg) duration fps None None w1
                        | Some mi \<Rightarrow>
                            (case getMonitorBounds e mi w1 of
                               (None, w2) \<Rightarrow>
                                 (JsonResult (JObj
                                    [(''error'', JStr ''Failed to get monitor bounds''),
                                     (''hint'', JStr ''Use list_monitors to see available monitors'')]),
                                  w2)
                             | (Some b, w2) \<Rightarrow>
                                 record_capture e (the ffmpeg) duration fps (Some mi) (Some b) w2))))"

section \<open>take_screenshot\<close>

definition screenshot_delay :: "params \<Rightarrow> jsnum" where
  "screenshot_delay params =
     (case params ''delay'' of
        Number d \<Rightarrow> Math_min (Math_max d (Fin 0)) (Fin 10)
      | _ \<Rightarrow> Fin 0)"

definition screenshot_monitor :: "ScreenCaptureConfig \<Rightarrow> params \<Rightarrow> jsnum" where
  "screenshot_monitor cfg params =
     (case params ''monitor'' of
        Number m \<Rightarrow> m
      | _ \<Rightarrow> (case defaultMonitor cfg of Some d \<Rightarrow> d | None \<Rightarrow> Fin 0))"

definition screenshot_format :: "ScreenCaptureConfig \<Rightarrow> ScreenshotFormat" where
  "screenshot_format cfg = (case screenshotFormat cfg of Some f \<Rightarrow> f | None \<Rightarrow> Png)"

definition createScreenshotScript :: "path \<Rightarrow> jsnum \<Rightarrow> ScreenshotFormat \<Rightarrow> file_content" where
  "createScreenshotScript outputPath monitorIndex imageFormat =
     ScreenshotScript outputPath monitorIndex imageFormat"

text \<open>
  The screen the generated script captures when the system has \<open>n\<close> screens:
  \<open>if ($monitorIndex -ge $screens.Length) { $monitorIndex = 0 }\<close>.
\<close>

definition script_monitorIndex :: "jsnum \<Rightarrow> nat \<Rightarrow> jsnum" where
  "script_monitorIndex monitorIndex n =
     (if js_gt monitorIndex (Fin (of_nat n)) \<or> js_eq monitorIndex (Fin (of_nat n)) then Fin 0
      else monitorIndex)"

text \<open>The screen a file captures when it is run as a script on \<open>n\<close> screens.\<close>

definition captured_screen :: "file_content \<Rightarrow> nat \<Rightarrow> jsnum option" where
  "captured_screen c n =
     (case c of
        ScreenshotScript _ monitorIndex _ \<Rightarrow> Some (script_monitorIndex monitorIndex n)
      | _ \<Rightarrow> None)"

text \<open>\<open>imageResultFromFile(...)\<close>: throws, or returns the image result of its argument.\<close>

definition imageResultFromFile :: "env \<Rightarrow> string \<Rightarrow> string \<Rightarrow> string \<Rightarrow> json \<Rightarrow> world
    \<Rightarrow> (string + tool_result) \<times> world" where
  "imageResultFromFile e label path extraText details w =
     (case imageResult_error e path of
        Some msg \<Rightarrow> (Inl msg, emit (EImageResult path) w)
      | None \<Rightarrow> (Inr (ImageResult label path extraText details), emit (EImageResult path) w))"

definition screenshot_extraText :: "(jsnum \<Rightarrow> string) \<Rightarrow> jsnum \<Rightarrow> ScreenshotFormat \<Rightarrow> SavedMedia
    \<Rightarrow> string" where
  "screenshot_extraText str monitor format saved =
     ''Screenshot captured (monitor '' @ str monitor @ '', '' @ format_str format
       @ ''). Saved to: '' @ s_path saved"

definition screenshot_details :: "jsnum \<Rightarrow> ScreenshotFormat \<Rightarrow> jsnum \<Rightarrow> SavedMedia \<Rightarrow> json" where
  "screenshot_details monitor format delay saved =
     JObj [(''monitor'', JNum monitor),
           (''format'', JStr (format_str format)),
           (''delay'', JNum delay),
           (''savedPath'', JStr (s_path saved))]"

definition screenshot_success :: "env \<Rightarrow> jsnum \<Rightarrow> ScreenshotFormat \<Rightarrow> jsnum \<Rightarrow> SavedMedia
    \<Rightarrow> world \<Rightarrow> (string + tool_result) \<times> world" where
  "screenshot_success e monitor format delay saved w =
     imageResultFromFile e ''Screenshot'' (s_path saved)
       (screenshot_extraText (String_of e) monitor format saved)
       (screenshot_details monitor format delay saved)
       w"

text \<open>The \<open>try\<close> block of \<open>take_screenshot\<close>.\<close>

definition screenshot_try :: "env \<Rightarrow> jsnum \<Rightarrow> ScreenshotFormat \<Rightarrow> jsnum \<Rightarrow> path \<Rightarrow> path \<Rightarrow> world
    \<Rightarrow> (string + tool_result) \<times> world" where
  "screenshot_try e monitor format delay outputPath scriptPath w =
     (case writeFileSync e scriptPath (createScreenshotScript outputPath monitor format) w of
        (Inl msg, w1) \<Rightarrow> (Inl msg, w1)
      | (Inr _, w1) \<Rightarrow>
          (case exec_screenshot e scriptPath outputPath w1 of
             (Inl msg, w2) \<Rightarrow> (Inl msg, w2)
           | (Inr _, w2) \<Rightarrow>
               (case readFile e outputPath w2 of
                  (Inl msg, w3) \<Rightarrow> (Inl msg, w3)
                | (Inr buffer, w3) \<Rightarrow>
                    (case save e buffer
                            (if format = Jpeg then ''image/jpeg'' else ''image/png'')
                            ''screenshots'' (10 * 1024 * 1024)
                            (''screenshot.'' @ format_str format) w3 of
                       (Inl msg, w4) \<Rightarrow> (Inl msg, w4)
                     | (Inr saved, w4) \<Rightarrow>
                         screenshot_success e monitor format delay saved
                           (unlink e scriptPath (unlink e outputPath w4))))))"

definition screenshot_outputPath :: "env \<Rightarrow> ScreenCaptureConfig \<Rightarrow> world \<Rightarrow> path" where
  "screenshot_outputPath e cfg w =
     path_join (tmpdir e)
       (''screenshot-'' @ fst (next_uuid e w) @ ''.'' @ format_str (screenshot_format cfg))"

definition screenshot_scriptPath :: "env \<Rightarrow> world \<Rightarrow> path" where
  "screenshot_scriptPath e w =
     path_join (tmpdir e)
       (''screenshot-'' @ fst (next_uuid e (snd (next_uuid e w))) @ ''.ps1'')"

definition take_screenshot :: "env \<Rightarrow> ScreenCaptureConfig \<Rightarrow> params \<Rightarrow> world \<Rightarrow> tool_result \<times> world" where
  "take_screenshot e cfg params w0 =
     (let delay = screenshot_delay params;
          monitor = screenshot_monitor cfg params;
          format = screenshot_format cfg;
          w1 = (if js_gt delay (Fin 0) then emit (ESleep delay) w0 else w0);
          outputPath = screenshot_outputPath e cfg w1;
          scriptPath = screenshot_scriptPath e w1;
          w2 = snd (next_uuid e (snd (next_uuid e w1)))
      in case screenshot_try e monitor format delay outputPath scriptPath w2 of
           (Inr res, w3) \<Rightarrow> (res, w3)
         | (Inl message, w3) \<Rightarrow>
             (JsonResult (JObj [(''error'', JStr ''Screenshot capture failed''),
                                (''details'', JStr message),
                                (''platform'', JStr (platform e))]),
              unlink e scriptPath (unlink e outputPath w3)))"

section \<open>Plugin registration\<close>

definition register :: "env \<Rightarrow> world \<Rightarrow> world" where
  "register e w =
     (if platform e \<noteq> ''win32''
      then emit (ELogWarn ''Screen Capture plugin is currently Windows-only'') w
      else emit (ELogInfo ''Screen Capture plugin registered (list_monitors + screenshot + video tools)'')
             (emit (ERegisterTool ''record_screen'')
               (emit (ERegisterTool ''take_screenshot'')
                 (emit (ERegisterTool ''list_monitors'') w))))"

definition registered_tools :: "world \<Rightarrow> string list" where
  "registered_tools w = concat (map (\<lambda>ev. case ev of ERegisterTool n \<Rightarrow> [n] | _ \<Rightarrow> []) (trace w))"


section \<open>Vocabulary of the properties and sample inputs\<close>



text \<open>The calls made between the world \<open>w\<close> and the later world \<open>w'\<close>.\<close>

definition new_events :: "world \<Rightarrow> world \<Rightarrow> event list" where
  "new_events w w' = drop (length (trace w)) (trace w')"

definition crlf :: string where
  "crlf = [CHR 0x0D, CHR 0x0A]"

text \<open>
  A Windows host on which every call succeeds: scripts print \<open>out\<close>, \<open>ffmpeg\<close> is
  on the search path, the screenshot script and the encoder leave a file, the media
  store saves under \<open>media/\<close>.
\<close>

definition host :: "string \<Rightarrow> env" where
  "host out =
     \<lparr> tmpdir = ''C:/Temp'', homedir = ''C:/Users/u'', platform = ''win32'',
       randomUUID = (\<lambda>k. replicate (Suc k) CHR ''a''),
       String_of = (\<lambda>n. ''n''),
       writeFile_error = (\<lambda>p. None),
       exec_outcome = (\<lambda>c. Inr out),
       exec_saves = (\<lambda>c. Some ''PNG''),
       probe_status = (\<lambda>c sh. if c = ''ffmpeg'' then Some 0 else None),
       timeout_error = (\<lambda>t. ''ERR_OUT_OF_RANGE''),
       capture_status = (\<lambda>c a. Some 1),
       capture_saves = (\<lambda>c a. Some ''MP4''),
       unlink_fails = (\<lambda>p. False),
       fs_error = (\<lambda>p. ''ENOENT''),
       saveMediaBuffer = (\<lambda>b ct sub mx fn.
          Inr \<lparr> s_path = ''media/'' @ fn, s_size = Fin (of_nat (length b)), s_contentType = ct \<rparr>),
       imageResult_error = (\<lambda>p. None) \<rparr>"

definition world0 :: world where
  "world0 = \<lparr> files = Map.empty, trace = [], uuids = 0 \<rparr>"



text \<open>The parameter object with the given properties.\<close>

definition params_of :: "(string \<times> jsval) list \<Rightarrow> params" where
  "params_of kvs k = (case map_of kvs k of Some v \<Rightarrow> v | None \<Rightarrow> Undefined)"

text \<open>The configuration with no field set.\<close>

definition default_config :: ScreenCaptureConfig where
  "default_config = \<lparr> ffmpegPath = None, defaultMonitor = None, screenshotFormat = None,
                       maxVideoDuration = None \<rparr>"




text \<open>The request \<open>{monitor: 5}\<close>.\<close>

definition monitor5_params :: params where
  "monitor5_params = params_of [(''monitor'', Number (Fin 5))]"

text \<open>The request \<open>{}\<close>.\<close>

definition no_params :: params where
  "no_params = params_of []"

text \<open>
  The candidates of the capture-binary resolution in their priority order: the
  configured path if there is one, the name \<open>ffmpeg\<close> resolved through the search path
  (a shell), then the well-known install locations. The flag is \<open>shell: true\<close>.
\<close>

definition candidates :: "env \<Rightarrow> string option \<Rightarrow> (string \<times> bool) list" where
  "candidates e configPath =
     (if truthy_path configPath then [(the configPath, False)] else [])
     @ [(''ffmpeg'', True)]
     @ map (\<lambda>p. (p, False)) (commonPaths e)"

text \<open>A candidate is accepted when its \<open>-version\<close> probe exits with status 0.\<close>

definition accepts :: "env \<Rightarrow> string \<times> bool \<Rightarrow> bool" where
  "accepts e c = (probe_status e (fst c) (snd c) = Some 0)"

text \<open>The candidates that get probed: all up to the first accepted one, and that one.\<close>

fun probed :: "('a \<Rightarrow> bool) \<Rightarrow> 'a list \<Rightarrow> 'a list" where
  "probed ok [] = []"
| "probed ok (c # cs) = c # (if ok c then [] else probed ok cs)"

text \<open>The call that probes a candidate.\<close>

definition probe_event :: "string \<times> bool \<Rightarrow> event" where
  "probe_event c = EProbe (fst c) (snd c)"

text \<open>A host with no \<open>ffmpeg\<close> anywhere.\<close>

definition host_without_ffmpeg :: env where
  "host_without_ffmpeg = (host [])\<lparr>probe_status := (\<lambda>c sh. Some 1)\<rparr>"

text \<open>A host where only the scoop shim answers the probe.\<close>

definition host_with_scoop :: env where
  "host_with_scoop =
     (host [])\<lparr>probe_status :=
        (\<lambda>c sh. if c = join_path ''C:/Users/u'' [''scoop'', ''shims'', ''ffmpeg.exe''] then Some 0
                 else None)\<rparr>"

text \<open>The request \<open>{duration: 5}\<close>.\<close>

definition duration5_params :: params where
  "duration5_params = params_of [(''duration'', Number (Fin 5))]"

text \<open>What the bounds script prints on a system with two monitors.\<close>

definition two_bounds :: string where
  "two_bounds = ''0|0|0|1920|1080'' @ crlf @ ''1|1920|0|1280|1024'' @ crlf"


text \<open>The request \<open>{duration: 5, monitor: 1}\<close>.\<close>

definition duration5_monitor1_params :: params where
  "duration5_monitor1_params = params_of [(''duration'', Number (Fin 5)), (''monitor'', Number (Fin 1))]"


text \<open>
  The world in which \<open>record_screen\<close> verifies its output file: the encoder has run,
  \<open>fs.stat\<close> has not been called yet.
\<close>

definition verification_world :: "env \<Rightarrow> string \<Rightarrow> jsnum \<Rightarrow> jsnum \<Rightarrow> MonitorBounds option
    \<Rightarrow> world \<Rightarrow> world" where
  "verification_world e ffmpeg duration fps monitorBounds w =
     snd (record_run e ffmpeg duration fps monitorBounds (record_outputPath e w)
            (snd (next_uuid e w)))"

text \<open>The error result of the \<open>catch\<close> block of \<open>record_screen\<close>.\<close>

definition recording_failed :: "string \<Rightarrow> tool_result" where
  "recording_failed message =
     JsonResult (JObj
       [(''error'', JStr ''Screen recording failed''),
        (''details'', JStr message),
        (''hint'', JStr ''Ensure FFmpeg is installed and accessible. Try: winget install ffmpeg'')])"

text \<open>A host whose encoder leaves no file.\<close>

definition host_no_recording :: env where
  "host_no_recording = (host [])\<lparr>capture_saves := (\<lambda>c a. None)\<rparr>"


text \<open>
  A host on which every script fails the way \<open>execSync\<close> reports it: the message of
  the error quotes the command line.
\<close>

definition host_failing_scripts :: env where
  "host_failing_scripts = (host [])\<lparr>exec_outcome := (\<lambda>c. Inl (''Command failed: '' @ c))\<rparr>"

text \<open>How many times the deletion of \<open>p\<close> is attempted between two worlds.\<close>

definition unlink_count :: "path \<Rightarrow> world \<Rightarrow> world \<Rightarrow> nat" where
  "unlink_count p w w' = count_list (new_events w w') (EUnlink p)"

text \<open>A list of calls with no deletion and no image result among them.\<close>

definition quiet :: "event list \<Rightarrow> bool" where
  "quiet evs = (\<forall>ev\<in>set evs. (\<forall>q. ev \<noteq> EUnlink q) \<and> (\<forall>q. ev \<noteq> EImageResult q))"

text \<open>
  The temp paths \<open>record_screen\<close> has allocated between \<open>w\<close> and \<open>w'\<close>, one for each
  identifier it has drawn: the bounds script first when a monitor is requested, then
  the recording.
\<close>

definition record_screen_temp_paths :: "env \<Rightarrow> params \<Rightarrow> world \<Rightarrow> world \<Rightarrow> path list" where
  "record_screen_temp_paths e params w w' =
     (case record_monitorIndex params of
        None \<Rightarrow> if uuids w' = uuids w then [] else [record_outputPath e w]
      | Some _ \<Rightarrow>
          if uuids w' = uuids w then []
          else if uuids w' = Suc (uuids w) then [getMonitorBounds_scriptPath e w]
          else [getMonitorBounds_scriptPath e w, record_outputPath e (snd (next_uuid e w))])"

text \<open>A host on which building the image result fails.\<close>

definition host_image_fails :: env where
  "host_image_fails = (host [])\<lparr>imageResult_error := (\<lambda>p. Some ''image result failed'')\<rparr>"

text \<open>A host on which no file can be deleted.\<close>

definition host_locked :: env where
  "host_locked = (host [])\<lparr>unlink_fails := (\<lambda>p. True)\<rparr>"




text \<open>The runs of the encoder among a list of calls: the binary and its arguments.\<close>

definition captures :: "event list \<Rightarrow> (string \<times> string list) list" where
  "captures evs = concat (map (\<lambda>ev. case ev of ECapture ff args \<Rightarrow> [(ff, args)] | _ \<Rightarrow> []) evs)"

text \<open>The waits among a list of calls: their lengths in seconds.\<close>

definition sleeps :: "event list \<Rightarrow> jsnum list" where
  "sleeps evs = concat (map (\<lambda>ev. case ev of ESleep t \<Rightarrow> [t] | _ \<Rightarrow> []) evs)"




section \<open>Splitting an output into its lines\<close>
















section \<open>What each call does to the world\<close>

lemma emit_sel [simp]:
  "trace (emit ev w) = trace w @ [ev]" "files (emit ev w) = files w" "uuids (emit ev w) = uuids w"
  by (simp_all add: emit_def)

lemma next_uuid_sel [simp]:
  "fst (next_uuid e w) = randomUUID e (uuids w)"
  "trace (snd (next_uuid e w)) = trace w"
  "files (snd (next_uuid e w)) = files w"
  "uuids (snd (next_uuid e w)) = Suc (uuids w)"
  by (simp_all add: next_uuid_def)

lemma writeFileSync_sel:
  "fst (writeFileSync e p c w) = (case writeFile_error e p of Some msg \<Rightarrow> Inl msg | None \<Rightarrow> Inr ())"
  "trace (snd (writeFileSync e p c w)) = trace w @ [EWriteFile p c]"
  "files (snd (writeFileSync e p c w))
     = (if writeFile_error e p = None then (files w)(p \<mapsto> c) else files w)"
  "uuids (snd (writeFileSync e p c w)) = uuids w"
  by (simp_all add: writeFileSync_def Let_def split: option.split)

lemma unlink_sel:
  "trace (unlink e p w) = trace w @ [EUnlink p]"
  "files (unlink e p w) = (if unlink_fails e p then files w else (files w)(p := None))"
  "uuids (unlink e p w) = uuids w"
  by (simp_all add: unlink_def Let_def)

lemma unlinkSync_sel:
  "fst (unlinkSync e p w)
     = (if files w p = None \<or> unlink_fails e p then Inl (fs_error e p) else Inr ())"
  "trace (snd (unlinkSync e p w)) = trace w @ [EUnlink p]"
  "files (snd (unlinkSync e p w)) = (if unlink_fails e p then files w else (files w)(p := None))"
  "uuids (snd (unlinkSync e p w)) = uuids w"
  by (auto simp: unlinkSync_def Let_def)

lemma execSync_sel:
  "fst (execSync e cmd w) = exec_outcome e cmd"
  "trace (snd (execSync e cmd w)) = trace w @ [EExec cmd]"
  "files (snd (execSync e cmd w)) = files w"
  "uuids (snd (execSync e cmd w)) = uuids w"
  by (simp_all add: execSync_def)

lemma exec_screenshot_sel:
  "fst (exec_screenshot e sp op w) = exec_outcome e (powershell_cmd sp)"
  "trace (snd (exec_screenshot e sp op w)) = trace w @ [EExec (powershell_cmd sp)]"
  "files (snd (exec_screenshot e sp op w))
     = (case exec_saves e (powershell_cmd sp) of
          None \<Rightarrow> files w
        | Some b \<Rightarrow> (files w)(op \<mapsto> Bytes b))"
  "uuids (snd (exec_screenshot e sp op w)) = uuids w"
  by (simp_all add: exec_screenshot_def execSync_def split: option.split)

lemma readFile_sel:
  "fst (readFile e p w)
     = (case files w p of None \<Rightarrow> Inl (fs_error e p) | Some c \<Rightarrow> Inr (content_bytes c))"
  "trace (snd (readFile e p w)) = trace w @ [EReadFile p]"
  "files (snd (readFile e p w)) = files w"
  "uuids (snd (readFile e p w)) = uuids w"
  by (simp_all add: readFile_def Let_def split: option.split)

lemma stat_sel:
  "fst (stat e p w)
     = (case files w p of None \<Rightarrow> Inl (fs_error e p) | Some c \<Rightarrow> Inr (length (content_bytes c)))"
  "trace (snd (stat e p w)) = trace w @ [EStat p]"
  "files (snd (stat e p w)) = files w"
  "uuids (snd (stat e p w)) = uuids w"
  by (simp_all add: stat_def Let_def split: option.split)

lemma save_sel:
  "fst (save e b ct sub mx fn w) = saveMediaBuffer e b ct sub mx fn"
  "trace (snd (save e b ct sub mx fn w)) = trace w @ [ESave sub fn]"
  "files (snd (save e b ct sub mx fn w)) = files w"
  "uuids (snd (save e b ct sub mx fn w)) = uuids w"
  by (simp_all add: save_def)

lemma imageResultFromFile_sel:
  "fst (imageResultFromFile e l p x d w)
     = (case imageResult_error e p of Some msg \<Rightarrow> Inl msg | None \<Rightarrow> Inr (ImageResult l p x d))"
  "trace (snd (imageResultFromFile e l p x d w)) = trace w @ [EImageResult p]"
  "files (snd (imageResultFromFile e l p x d w)) = files w"
  "uuids (snd (imageResultFromFile e l p x d w)) = uuids w"
  by (simp_all add: imageResultFromFile_def split: option.split)

lemma spawn_capture_sel:
  "fst (spawn_capture e ff args t op w)
     = (if valid_timeout t then Inr (capture_status e ff args) else Inl (timeout_error e t))"
  "trace (snd (spawn_capture e ff args t op w))
     = trace w @ (if valid_timeout t then [ECapture ff args] else [])"
  "files (snd (spawn_capture e ff args t op w))
     = (if valid_timeout t
        then (case capture_saves e ff args of
                None \<Rightarrow> files w
              | Some b \<Rightarrow> (files w)(op \<mapsto> Bytes b))
        else files w)"
  "uuids (snd (spawn_capture e ff args t op w)) = uuids w"
  by (simp_all add: spawn_capture_def Let_def split: option.split)

lemma valid_timeout_Fin:
  "valid_timeout (capture_timeout (Fin (of_int n))) \<longleftrightarrow> - 30 \<le> n \<and> n \<le> 9007199254710"
proof -
  define k where "k = (n + 30) * 1000"
  have eq: "(of_int n + 30) * 1000 = (of_int k :: rat)" by (simp add: k_def)
  have "valid_timeout (capture_timeout (Fin (of_int n)))
      \<longleftrightarrow> of_int \<lfloor>of_int k :: rat\<rfloor> = (of_int k :: rat) \<and> 0 \<le> (of_int k :: rat)
          \<and> (of_int k :: rat) \<le> 9007199254740991"
    by (simp only: valid_timeout_def capture_timeout_def js_add.simps js_mul.simps jsnum.case eq)
  also have "\<dots> \<longleftrightarrow> 0 \<le> k \<and> k \<le> 9007199254740991" by simp
  also have "\<dots> \<longleftrightarrow> - 30 \<le> n \<and> n \<le> 9007199254710"
    unfolding k_def by (auto simp: algebra_simps)
  finally show ?thesis .
qed

lemma valid_timeout_not_finite [simp]:
  "\<not> valid_timeout (capture_timeout NaN)"
  "\<not> valid_timeout (capture_timeout PosInf)"
  "\<not> valid_timeout (capture_timeout NegInf)"
  by (simp_all add: valid_timeout_def capture_timeout_def)

lemma valid_timeout_numeral [simp]:
  "valid_timeout (capture_timeout (Fin (numeral k))) \<longleftrightarrow> (numeral k :: int) \<le> 9007199254710"
  using valid_timeout_Fin [of "numeral k"] by simp

lemma valid_timeout_one [simp]: "valid_timeout (capture_timeout (Fin 1))"
  using valid_timeout_Fin [of 1] by simp

lemma record_run_fst:
  "fst (record_run e ff d fps mb rp w)
     = (if valid_timeout (capture_timeout d)
        then Inr (capture_status e ff (ffmpeg_args e fps mb d rp))
        else Inl (timeout_error e (capture_timeout d)))"
  by (simp add: record_run_def Let_def spawn_capture_sel(1))

lemma probe_sel:
  "fst (probe e c sh w) = (probe_status e c sh = Some 0)"
  "trace (snd (probe e c sh w)) = trace w @ [EProbe c sh]"
  "files (snd (probe e c sh w)) = files w"
  "uuids (snd (probe e c sh w)) = uuids w"
  by (simp_all add: probe_def)


lemmas fst_sel = next_uuid_sel(1) writeFileSync_sel(1) unlinkSync_sel(1) execSync_sel(1)
  exec_screenshot_sel(1) readFile_sel(1) stat_sel(1) save_sel(1) imageResultFromFile_sel(1)
  spawn_capture_sel(1) probe_sel(1)

lemmas trace_sel = emit_sel(1) next_uuid_sel(2) writeFileSync_sel(2) unlink_sel(1) unlinkSync_sel(2)
  execSync_sel(2) exec_screenshot_sel(2) readFile_sel(2) stat_sel(2) save_sel(2)
  imageResultFromFile_sel(2) spawn_capture_sel(2) probe_sel(2)

lemmas files_sel = emit_sel(2) next_uuid_sel(3) writeFileSync_sel(3) unlink_sel(2) unlinkSync_sel(3)
  execSync_sel(3) exec_screenshot_sel(3) readFile_sel(3) stat_sel(3) save_sel(3)
  imageResultFromFile_sel(3) spawn_capture_sel(3) probe_sel(3)

lemmas uuids_sel = emit_sel(3) next_uuid_sel(4) writeFileSync_sel(4) unlink_sel(3) unlinkSync_sel(4)
  execSync_sel(4) exec_screenshot_sel(4) readFile_sel(4) stat_sel(4) save_sel(4)
  imageResultFromFile_sel(4) spawn_capture_sel(4) probe_sel(4)

section \<open>list_monitors: the descriptors of an output\<close>



lemmas parse_defs = output_lines_def trim_def is_ws_def newline_def monitor_of_line_def bar_def
  field_def parseInt_def parseInt_str_def is_digit_def digits_val_def digit_val_def
  echoed_index_def bounds_of_line_def

section \<open>Clamping and rounding; the results of record_screen\<close>




lemma is_error_recording_success [simp]:
  "json_get ''error'' (recording_success str duration fps mi mb saved) = JUndefined"
  by (simp add: recording_success_def Let_def)






lemma screenshot_try_trace:
  "\<exists>evs. trace (snd (screenshot_try e monitor format delay outputPath scriptPath w))
     = trace w @ EWriteFile scriptPath (createScreenshotScript outputPath monitor format) # evs"
  by (simp add: screenshot_try_def screenshot_success_def split_beta trace_sel
      split: sum.split)

lemma screenshot_scriptPath_emit [simp]:
  "screenshot_scriptPath e (emit ev w) = screenshot_scriptPath e w"
  by (simp add: screenshot_scriptPath_def next_uuid_def)

lemma screenshot_outputPath_emit [simp]:
  "screenshot_outputPath e cfg (emit ev w) = screenshot_outputPath e cfg w"
  by (simp add: screenshot_outputPath_def next_uuid_def)





lemma Math_round_Fin: "Math_round (Fin x) = Fin (of_int (round x))"
  by (simp add: round_def)


section \<open>C8 and C9: the requested monitor, the platform check\<close>

lemma screenshot_try_result:
  assumes "fst (screenshot_try e monitor format delay outputPath scriptPath w) = Inr res"
  shows "\<exists>buffer saved.
           saveMediaBuffer e buffer (if format = Jpeg then ''image/jpeg'' else ''image/png'')
             ''screenshots'' (10 * 1024 * 1024) (''screenshot.'' @ format_str format) = Inr saved
         \<and> res = ImageResult ''Screenshot'' (s_path saved)
                   (screenshot_extraText (String_of e) monitor format saved)
                   (screenshot_details monitor format delay saved)"
  using assms
  by (auto simp: screenshot_try_def screenshot_success_def split_beta
      save_sel(1) imageResultFromFile_sel(1) split: sum.splits option.splits) blast+

lemma take_screenshot_cases:
  obtains (failed) message where
      "fst (take_screenshot e cfg params w)
         = JsonResult (JObj [(''error'', JStr ''Screenshot capture failed''),
                             (''details'', JStr message),
                             (''platform'', JStr (platform e))])"
  | (captured) buffer saved where
      "saveMediaBuffer e buffer
         (if screenshot_format cfg = Jpeg then ''image/jpeg'' else ''image/png'')
         ''screenshots'' (10 * 1024 * 1024) (''screenshot.'' @ format_str (screenshot_format cfg))
         = Inr saved"
      "fst (take_screenshot e cfg params w)
         = ImageResult ''Screenshot'' (s_path saved)
             (screenshot_extraText (String_of e) (screenshot_monitor cfg params)
                (screenshot_format cfg) saved)
             (screenshot_details (screenshot_monitor cfg params) (screenshot_format cfg)
                (screenshot_delay params) saved)"
proof -
  define w1 where "w1 = (if js_gt (screenshot_delay params) (Fin 0)
                         then emit (ESleep (screenshot_delay params)) w else w)"
  define t where "t = screenshot_try e (screenshot_monitor cfg params) (screenshot_format cfg)
      (screenshot_delay params) (screenshot_outputPath e cfg w1) (screenshot_scriptPath e w1)
      (snd (next_uuid e (snd (next_uuid e w1))))"
  have r: "fst (take_screenshot e cfg params w)
      = (case fst t of
           Inr res \<Rightarrow> res
         | Inl message \<Rightarrow> JsonResult (JObj [(''error'', JStr ''Screenshot capture failed''),
                             (''details'', JStr message),
                             (''platform'', JStr (platform e))]))"
    unfolding take_screenshot_def Let_def w1_def [symmetric] t_def [symmetric]
    by (simp add: split_beta split: sum.split)
  show thesis
  proof (cases "fst t")
    case (Inl message)
    then show ?thesis using r failed by simp
  next
    case (Inr res)
    from screenshot_try_result [OF Inr [unfolded t_def]] obtain buffer saved where
      "saveMediaBuffer e buffer
         (if screenshot_format cfg = Jpeg then ''image/jpeg'' else ''image/png'')
         ''screenshots'' (10 * 1024 * 1024) (''screenshot.'' @ format_str (screenshot_format cfg))
         = Inr saved"
      "res = ImageResult ''Screenshot'' (s_path saved)
             (screenshot_extraText (String_of e) (screenshot_monitor cfg params)
                (screenshot_format cfg) saved)
             (screenshot_details (screenshot_monitor cfg params) (screenshot_format cfg)
                (screenshot_delay params) saved)"
      by blast
    then show ?thesis using r Inr captured by simp
  qed
qed

lemma take_screenshot_writes_its_script:
  "\<exists>pre post. new_events w (snd (take_screenshot e cfg params w))
     = pre @ EWriteFile (screenshot_scriptPath e w)
               (ScreenshotScript (screenshot_outputPath e cfg w) (screenshot_monitor cfg params)
                  (screenshot_format cfg)) # post"
proof -
  define w1 where "w1 = (if js_gt (screenshot_delay params) (Fin 0)
                         then emit (ESleep (screenshot_delay params)) w else w)"
  define w2 where "w2 = snd (next_uuid e (snd (next_uuid e w1)))"
  define sp where "sp = screenshot_scriptPath e w"
  define op where "op = screenshot_outputPath e cfg w"
  define t where "t = screenshot_try e (screenshot_monitor cfg params) (screenshot_format cfg)
                        (screenshot_delay params) op sp w2"
  have paths: "screenshot_scriptPath e w1 = sp" "screenshot_outputPath e cfg w1 = op"
    by (simp_all add: w1_def sp_def op_def)
  obtain evs where evs: "trace (snd t) = trace w2 @ EWriteFile sp
      (createScreenshotScript op (screenshot_monitor cfg params) (screenshot_format cfg)) # evs"
    unfolding t_def using screenshot_try_trace by blast
  have w2: "\<exists>pre. trace w2 = trace w @ pre"
    by (simp add: w2_def w1_def)
  have "\<exists>post. trace (snd (take_screenshot e cfg params w)) = trace (snd t) @ post"
    unfolding take_screenshot_def Let_def
    by (simp add: split_beta paths w1_def [symmetric] w2_def [symmetric] t_def [symmetric]
        trace_sel split: sum.split)
  then obtain pre post where "trace (snd (take_screenshot e cfg params w))
      = trace w @ pre @ EWriteFile sp
          (createScreenshotScript op (screenshot_monitor cfg params) (screenshot_format cfg))
          # evs @ post"
    using evs w2 by auto
  then have "new_events w (snd (take_screenshot e cfg params w))
      = pre @ EWriteFile sp (ScreenshotScript op (screenshot_monitor cfg params)
                               (screenshot_format cfg)) # (evs @ post)"
    by (simp add: new_events_def createScreenshotScript_def)
  then show ?thesis unfolding sp_def op_def by blast
qed

text \<open>
  Claim C8. The monitor of \<open>take_screenshot\<close> is the numeric \<open>monitor\<close> parameter if
  there is one, else the configured \<open>defaultMonitor\<close>, else 0. That value is written
  into the capture script, and a success result echoes it in its details, also when
  the script itself captures screen 0 because the value is at or beyond the number of
  screens.
\<close>

theorem take_screenshot_echoes_requested_monitor:
  "(params ''monitor'' = Number m \<longrightarrow> screenshot_monitor cfg params = m)
   \<and> ((\<forall>v. ps ''monitor'' \<noteq> Number v) \<and> defaultMonitor cfg1 = Some d \<longrightarrow>
        screenshot_monitor cfg1 ps = d)
   \<and> ((\<forall>v. ps ''monitor'' \<noteq> Number v) \<and> defaultMonitor cfg2 = None \<longrightarrow>
        screenshot_monitor cfg2 ps = Fin 0)
   \<and> (\<not> is_error (fst (take_screenshot e cfg params w)) \<longrightarrow>
        json_get ''monitor'' (result_details (fst (take_screenshot e cfg params w)))
          = JNum (screenshot_monitor cfg params))
   \<and> (\<exists>pre post. new_events w (snd (take_screenshot e cfg params w))
          = pre @ EWriteFile (screenshot_scriptPath e w)
                    (ScreenshotScript (screenshot_outputPath e cfg w)
                       (screenshot_monitor cfg params) (screenshot_format cfg)) # post)
   \<and> (of_nat n \<le> k \<longrightarrow> captured_screen (ScreenshotScript outputPath (Fin k) format) n = Some (Fin 0))"
proof -
  have a: "screenshot_monitor cfg params = m" if "params ''monitor'' = Number m"
    using that by (simp add: screenshot_monitor_def)
  have b: "screenshot_monitor c ps = (case defaultMonitor c of Some d \<Rightarrow> d | None \<Rightarrow> Fin 0)"
    if "\<forall>v. ps ''monitor'' \<noteq> Number v" for c
    using that by (cases "ps ''monitor''") (simp_all add: screenshot_monitor_def)
  have c: "json_get ''monitor'' (result_details (fst (take_screenshot e cfg params w)))
          = JNum (screenshot_monitor cfg params)"
    if "\<not> is_error (fst (take_screenshot e cfg params w))"
  proof (cases rule: take_screenshot_cases [where e=e and cfg=cfg and params=params and w=w])
    case (failed message)
    then show ?thesis using that by simp
  next
    case (captured buffer saved)
    then show ?thesis by (simp add: screenshot_details_def)
  qed
  have d: "captured_screen (ScreenshotScript outputPath (Fin k) format) n = Some (Fin 0)"
    if "of_nat n \<le> k"
    using that by (auto simp: captured_screen_def script_monitorIndex_def js_eq_def)
  show ?thesis
    using a b c d take_screenshot_writes_its_script [of w e cfg params] by simp
qed

lemmas eval_defs = split_beta fst_sel trace_sel files_sel uuids_sel

lemma take_screenshot_host_monitor5:
  "fst (take_screenshot (host []) default_config monitor5_params world0)
     = ImageResult ''Screenshot'' ''media/screenshot.png''
         ''Screenshot captured (monitor n, png). Saved to: media/screenshot.png''
         (JObj [(''monitor'', JNum (Fin 5)), (''format'', JStr ''png''),
                (''delay'', JNum (Fin 0)), (''savedPath'', JStr ''media/screenshot.png'')])"
  by (simp add: take_screenshot_def screenshot_try_def screenshot_success_def
      screenshot_delay_def screenshot_monitor_def screenshot_format_def
      screenshot_outputPath_def screenshot_scriptPath_def screenshot_extraText_def
      screenshot_details_def createScreenshotScript_def
      monitor5_params_def params_of_def default_config_def host_def world0_def
      path_join_def powershell_cmd_def content_bytes_def Let_def eval_defs)

text \<open>
  Claim C8 on the request \<open>{monitor: 5}\<close> and a system with two screens: the result
  says monitor 5, the script captures screen 0.
\<close>

theorem take_screenshot_echoes_requested_monitor_witness:
  "screenshot_monitor default_config monitor5_params = Fin 5
   \<and> screenshot_monitor (default_config\<lparr>defaultMonitor := Some (Fin 1)\<rparr>) no_params = Fin 1
   \<and> screenshot_monitor default_config no_params = Fin 0
   \<and> \<not> is_error (fst (take_screenshot (host []) default_config monitor5_params world0))
   \<and> json_get ''monitor''
        (result_details (fst (take_screenshot (host []) default_config monitor5_params world0)))
       = JNum (Fin 5)
   \<and> captured_screen (ScreenshotScript ''out.png'' (Fin 5) Png) 2 = Some (Fin 0)"
proof -
  have p: "monitor5_params ''monitor'' = Number (Fin 5)"
    by (simp add: monitor5_params_def params_of_def)
  have q: "\<forall>v. no_params ''monitor'' \<noteq> Number v"
    by (simp add: no_params_def params_of_def)
  have c1: "defaultMonitor (default_config\<lparr>defaultMonitor := Some (Fin 1)\<rparr>) = Some (Fin 1)"
    by simp
  have c2: "defaultMonitor default_config = None"
    by (simp add: default_config_def)
  have ok: "\<not> is_error (fst (take_screenshot (host []) default_config monitor5_params world0))"
    by (simp add: take_screenshot_host_monitor5)
  have n: "of_nat 2 \<le> (5::rat)" by simp
  note T = take_screenshot_echoes_requested_monitor [of monitor5_params "Fin 5" default_config
      no_params "default_config\<lparr>defaultMonitor := Some (Fin 1)\<rparr>" "Fin 1" default_config
      "host []" world0 2 5 "''out.png''" Png]
  from T p have 1: "screenshot_monitor default_config monitor5_params = Fin 5" by blast
  from T q c1 have 2: "screenshot_monitor (default_config\<lparr>defaultMonitor := Some (Fin 1)\<rparr>) no_params = Fin 1"
    by blast
  from T q c2 have 3: "screenshot_monitor default_config no_params = Fin 0" by blast
  from T ok have "json_get ''monitor''
        (result_details (fst (take_screenshot (host []) default_config monitor5_params world0)))
       = JNum (screenshot_monitor default_config monitor5_params)" by blast
  then have 4: "json_get ''monitor''
        (result_details (fst (take_screenshot (host []) default_config monitor5_params world0)))
       = JNum (Fin 5)" using 1 by simp
  from T n have 5: "captured_screen (ScreenshotScript ''out.png'' (Fin 5) Png) 2 = Some (Fin 0)"
    by blast
  show ?thesis using 1 2 3 ok 4 5 by blast
qed

lemma prims_platform [simp]:
  "writeFileSync (e\<lparr>platform := p\<rparr>) = writeFileSync e"
  "unlink (e\<lparr>platform := p\<rparr>) = unlink e"
  "unlinkSync (e\<lparr>platform := p\<rparr>) = unlinkSync e"
  "execSync (e\<lparr>platform := p\<rparr>) = execSync e"
  "exec_screenshot (e\<lparr>platform := p\<rparr>) = exec_screenshot e"
  "readFile (e\<lparr>platform := p\<rparr>) = readFile e"
  "stat (e\<lparr>platform := p\<rparr>) = stat e"
  "save (e\<lparr>platform := p\<rparr>) = save e"
  "imageResultFromFile (e\<lparr>platform := p\<rparr>) = imageResultFromFile e"
  "spawn_capture (e\<lparr>platform := p\<rparr>) = spawn_capture e"
  "probe (e\<lparr>platform := p\<rparr>) = probe e"
  "next_uuid (e\<lparr>platform := p\<rparr>) = next_uuid e"
  "commonPaths (e\<lparr>platform := p\<rparr>) = commonPaths e"
  "ffmpeg_args (e\<lparr>platform := p\<rparr>) = ffmpeg_args e"
  by (simp_all add: fun_eq_iff writeFileSync_def unlink_def unlinkSync_def execSync_def
      exec_screenshot_def readFile_def stat_def save_def imageResultFromFile_def
      spawn_capture_def probe_def next_uuid_def commonPaths_def ffmpeg_args_def Let_def
      cong: option.case_cong if_cong)

lemma probe_paths_platform [simp]:
  "probe_paths (e\<lparr>platform := p\<rparr>) ps w = probe_paths e ps w"
  by (induction ps arbitrary: w) (simp_all add: split_beta)

lemma findFfmpeg_platform [simp]:
  "findFfmpeg (e\<lparr>platform := p\<rparr>) cp w = findFfmpeg e cp w"
  by (simp add: findFfmpeg_def split_beta cong: option.case_cong)

lemma getMonitorBounds_platform [simp]:
  "getMonitorBounds (e\<lparr>platform := p\<rparr>) mi w = getMonitorBounds e mi w"
  by (simp add: getMonitorBounds_def getMonitorBounds_try_def getMonitorBounds_scriptPath_def
      split_beta Let_def cong: sum.case_cong)

lemma record_capture_platform [simp]:
  "record_capture (e\<lparr>platform := p\<rparr>) ff d fps mi mb w = record_capture e ff d fps mi mb w"
  by (simp add: record_capture_def record_try_def record_run_def record_verify_def
      record_outputPath_def split_beta Let_def cong: sum.case_cong if_cong)

lemma record_screen_platform:
  "record_screen (e\<lparr>platform := p\<rparr>) cfg params w = record_screen e cfg params w"
  by (simp add: record_screen_def split_beta Let_def cong: option.case_cong if_cong)

lemma list_monitors_platform:
  "list_monitors (e\<lparr>platform := p\<rparr>) w = list_monitors e w"
  by (simp add: list_monitors_def list_monitors_try_def list_monitors_scriptPath_def
      split_beta Let_def cong: sum.case_cong)

lemma screenshot_try_platform [simp]:
  "screenshot_try (e\<lparr>platform := p\<rparr>) m f d op sp w = screenshot_try e m f d op sp w"
  by (simp add: screenshot_try_def screenshot_success_def split_beta cong: sum.case_cong)

lemma take_screenshot_platform:
  "snd (take_screenshot (e\<lparr>platform := p\<rparr>) cfg params w) = snd (take_screenshot e cfg params w)
   \<and> is_error (fst (take_screenshot (e\<lparr>platform := p\<rparr>) cfg params w))
       = is_error (fst (take_screenshot e cfg params w))
   \<and> result_error (fst (take_screenshot (e\<lparr>platform := p\<rparr>) cfg params w))
       = result_error (fst (take_screenshot e cfg params w))"
  by (simp add: take_screenshot_def Let_def split_beta screenshot_outputPath_def
      screenshot_scriptPath_def split: sum.split)

lemma registered_tools_emit [simp]:
  "registered_tools (emit ev w)
     = registered_tools w @ (case ev of ERegisterTool n \<Rightarrow> [n] | _ \<Rightarrow> [])"
  by (simp add: registered_tools_def)

text \<open>
  Claim C9. On a platform other than \<open>win32\<close>, \<open>register\<close> logs a warning and
  registers no tool; on \<open>win32\<close> it registers \<open>list_monitors\<close>, \<open>take_screenshot\<close>
  and \<open>record_screen\<close>, and nothing else. No tool has an error path for the platform:
  \<open>list_monitors\<close> and \<open>record_screen\<close> do not read it, and in \<open>take_screenshot\<close>
  neither the calls made nor the error returned depend on it (it is only echoed in an
  error payload).
\<close>

theorem platform_is_checked_at_registration:
  "(platform e \<noteq> ''win32'' \<longrightarrow>
      registered_tools (register e w) = registered_tools w
      \<and> new_events w (register e w) = [ELogWarn ''Screen Capture plugin is currently Windows-only''])
   \<and> (platform e = ''win32'' \<longrightarrow>
      registered_tools (register e w)
        = registered_tools w @ [''list_monitors'', ''take_screenshot'', ''record_screen''])
   \<and> list_monitors (e\<lparr>platform := p\<rparr>) w = list_monitors e w
   \<and> record_screen (e\<lparr>platform := p\<rparr>) cfg params w = record_screen e cfg params w
   \<and> snd (take_screenshot (e\<lparr>platform := p\<rparr>) cfg params w) = snd (take_screenshot e cfg params w)
   \<and> is_error (fst (take_screenshot (e\<lparr>platform := p\<rparr>) cfg params w))
       = is_error (fst (take_screenshot e cfg params w))
   \<and> result_error (fst (take_screenshot (e\<lparr>platform := p\<rparr>) cfg params w))
       = result_error (fst (take_screenshot e cfg params w))"
  using take_screenshot_platform [where e=e and p=p and cfg=cfg and params=params and w=w]
  by (simp add: register_def new_events_def list_monitors_platform record_screen_platform)

text \<open>
  Claim C9 on a Linux host and on a Windows host.
\<close>

theorem platform_is_checked_at_registration_witness:
  "registered_tools (register ((host [])\<lparr>platform := ''linux''\<rparr>) world0) = []
   \<and> new_events world0 (register ((host [])\<lparr>platform := ''linux''\<rparr>) world0)
       = [ELogWarn ''Screen Capture plugin is currently Windows-only'']
   \<and> registered_tools (register (host []) world0)
       = [''list_monitors'', ''take_screenshot'', ''record_screen'']"
proof -
  have l: "platform ((host [])\<lparr>platform := ''linux''\<rparr>) \<noteq> ''win32''" by simp
  have w: "platform (host []) = ''win32''" by (simp add: host_def)
  have r0: "registered_tools world0 = []" by (simp add: registered_tools_def world0_def)
  from platform_is_checked_at_registration [of "(host [])\<lparr>platform := ''linux''\<rparr>" world0] l r0
  have 1: "registered_tools (register ((host [])\<lparr>platform := ''linux''\<rparr>) world0) = []"
    and 2: "new_events world0 (register ((host [])\<lparr>platform := ''linux''\<rparr>) world0)
       = [ELogWarn ''Screen Capture plugin is currently Windows-only'']"
    by simp_all
  from platform_is_checked_at_registration [of "host []" world0] w r0
  have 3: "registered_tools (register (host []) world0)
       = [''list_monitors'', ''take_screenshot'', ''record_screen'']"
    by simp
  show ?thesis using 1 2 3 by blast
qed

section \<open>C4: resolution of the capture binary\<close>

lemma probe_paths_sel:
  "fst (probe_paths e ps w) = map_option fst (find (accepts e) (map (\<lambda>p. (p, False)) ps))"
  "trace (snd (probe_paths e ps w))
     = trace w @ map probe_event (probed (accepts e) (map (\<lambda>p. (p, False)) ps))"
  "files (snd (probe_paths e ps w)) = files w"
  "uuids (snd (probe_paths e ps w)) = uuids w"
  by (induction ps arbitrary: w)
     (simp_all add: split_beta probe_sel accepts_def probe_event_def)

lemma findFfmpeg_sel:
  "fst (findFfmpeg e cp w) = map_option fst (find (accepts e) (candidates e cp))"
  "trace (snd (findFfmpeg e cp w)) = trace w @ map probe_event (probed (accepts e) (candidates e cp))"
  "files (snd (findFfmpeg e cp w)) = files w"
  "uuids (snd (findFfmpeg e cp w)) = uuids w"
  by (auto simp: findFfmpeg_def candidates_def split_beta probe_sel probe_paths_sel accepts_def
      probe_event_def truthy_path_def split: option.splits)

lemma probed_all_rejected: "\<forall>c\<in>set cs. \<not> ok c \<Longrightarrow> probed ok cs = cs"
  by (induction cs) auto

lemma find_all_rejected: "\<forall>c\<in>set cs. \<not> ok c \<Longrightarrow> find ok cs = None"
  by (induction cs) auto

lemma probed_takeWhile:
  "probed ok cs = takeWhile (\<lambda>c. \<not> ok c) cs @ take 1 (dropWhile (\<lambda>c. \<not> ok c) cs)"
  by (induction cs) auto

lemma record_screen_no_ffmpeg:
  assumes "\<forall>c\<in>set (candidates e (ffmpegPath cfg)). \<not> accepts e c"
    and "params ''duration'' = Number d"
  shows "record_screen e cfg params w
       = (JsonResult ffmpeg_not_found, snd (findFfmpeg e (ffmpegPath cfg) w))"
proof -
  have "fst (findFfmpeg e (ffmpegPath cfg) w) = None"
    using assms(1) by (simp add: findFfmpeg_sel find_all_rejected)
  moreover have "record_duration cfg params \<noteq> None"
    using assms(2) by (simp add: record_duration_def)
  ultimately show ?thesis
    by (auto simp: record_screen_def split_beta Let_def truthy_path_def)
qed

text \<open>
  Claim C4. \<open>findFfmpeg\<close> is a function of the configuration and of what the probes
  answer. It probes the candidates in their priority order (the configured path, then
  \<open>ffmpeg\<close> through the search path, then the well-known install locations), each with
  a \<open>-version\<close> probe that is accepted on status 0, stops at the first accepted
  candidate and returns it. When no candidate is accepted, \<open>record_screen\<close> (called
  with a numeric duration, so that it reaches the resolution) returns the error
  \<open>FFmpeg not found\<close> with a hint; the only calls it has made are the probes, so it has
  written no file, drawn no temp name and run no capture.
\<close>

theorem findFfmpeg_probes_in_priority_order:
  "fst (findFfmpeg e configPath w) = map_option fst (find (accepts e) (candidates e configPath))
   \<and> new_events w (snd (findFfmpeg e configPath w))
       = map probe_event (takeWhile (\<lambda>c. \<not> accepts e c) (candidates e configPath)
                          @ take 1 (dropWhile (\<lambda>c. \<not> accepts e c) (candidates e configPath)))
   \<and> ((\<forall>c\<in>set (candidates e (ffmpegPath cfg)). \<not> accepts e c) \<and> params ''duration'' = Number d \<longrightarrow>
        fst (record_screen e cfg params w) = JsonResult ffmpeg_not_found
        \<and> result_error (fst (record_screen e cfg params w)) = JStr ''FFmpeg not found''
        \<and> json_get ''hint'' ffmpeg_not_found \<noteq> JUndefined
        \<and> new_events w (snd (record_screen e cfg params w))
            = map probe_event (candidates e (ffmpegPath cfg))
        \<and> files (snd (record_screen e cfg params w)) = files w
        \<and> uuids (snd (record_screen e cfg params w)) = uuids w)"
proof -
  have a: "new_events w (snd (findFfmpeg e cp w)) = map probe_event (probed (accepts e) (candidates e cp))"
    for cp
    by (simp add: new_events_def findFfmpeg_sel)
  have b: "fst (record_screen e cfg params w) = JsonResult ffmpeg_not_found
        \<and> result_error (fst (record_screen e cfg params w)) = JStr ''FFmpeg not found''
        \<and> json_get ''hint'' ffmpeg_not_found \<noteq> JUndefined
        \<and> new_events w (snd (record_screen e cfg params w))
            = map probe_event (candidates e (ffmpegPath cfg))
        \<and> files (snd (record_screen e cfg params w)) = files w
        \<and> uuids (snd (record_screen e cfg params w)) = uuids w"
    if h: "\<forall>c\<in>set (candidates e (ffmpegPath cfg)). \<not> accepts e c" "params ''duration'' = Number d"
    using record_screen_no_ffmpeg [where e=e and cfg=cfg and params=params and d=d and w=w] h(2) a [of "ffmpegPath cfg"] h(1)
    by (simp add: findFfmpeg_sel probed_all_rejected ffmpeg_not_found_def)
  show ?thesis
    using a [of configPath] b by (simp add: findFfmpeg_sel probed_takeWhile ffmpeg_not_found_def)
qed

lemma candidates_host_without_ffmpeg:
  "\<forall>c\<in>set (candidates host_without_ffmpeg (ffmpegPath default_config)).
      \<not> accepts host_without_ffmpeg c"
  by (simp add: accepts_def host_without_ffmpeg_def)

text \<open>
  Claim C4 on a host where only the last well-known location answers, with a configured
  path that does not, and on a host with no \<open>ffmpeg\<close> at all.
\<close>

theorem findFfmpeg_probes_in_priority_order_witness:
  "fst (findFfmpeg host_with_scoop (Some ''D:/ffmpeg.exe'') world0)
     = Some (join_path ''C:/Users/u'' [''scoop'', ''shims'', ''ffmpeg.exe''])
   \<and> new_events world0 (snd (findFfmpeg host_with_scoop (Some ''D:/ffmpeg.exe'') world0))
       = [EProbe ''D:/ffmpeg.exe'' False, EProbe ''ffmpeg'' True,
          EProbe (join_path ''C:'' [''ffmpeg'', ''bin'', ''ffmpeg.exe'']) False,
          EProbe (join_path ''C:'' [''Program Files'', ''ffmpeg'', ''bin'', ''ffmpeg.exe'']) False,
          EProbe (join_path ''C:'' [''Program Files (x86)'', ''ffmpeg'', ''bin'', ''ffmpeg.exe'']) False,
          EProbe (join_path ''C:/Users/u'' [''ffmpeg'', ''bin'', ''ffmpeg.exe'']) False,
          EProbe (join_path ''C:/Users/u'' [''scoop'', ''shims'', ''ffmpeg.exe'']) False]
   \<and> fst (record_screen host_without_ffmpeg default_config duration5_params world0)
       = JsonResult ffmpeg_not_found
   \<and> length (new_events world0
         (snd (record_screen host_without_ffmpeg default_config duration5_params world0))) = 6
   \<and> files (snd (record_screen host_without_ffmpeg default_config duration5_params world0))
       = files world0
   \<and> uuids (snd (record_screen host_without_ffmpeg default_config duration5_params world0)) = 0"
proof -
  have p: "duration5_params ''duration'' = Number (Fin 5)"
    by (simp add: duration5_params_def params_of_def)
  have c: "candidates host_with_scoop (Some ''D:/ffmpeg.exe'')
      = [(''D:/ffmpeg.exe'', False), (''ffmpeg'', True),
         (join_path ''C:'' [''ffmpeg'', ''bin'', ''ffmpeg.exe''], False),
         (join_path ''C:'' [''Program Files'', ''ffmpeg'', ''bin'', ''ffmpeg.exe''], False),
         (join_path ''C:'' [''Program Files (x86)'', ''ffmpeg'', ''bin'', ''ffmpeg.exe''], False),
         (join_path ''C:/Users/u'' [''ffmpeg'', ''bin'', ''ffmpeg.exe''], False),
         (join_path ''C:/Users/u'' [''scoop'', ''shims'', ''ffmpeg.exe''], False)]"
    by (simp add: candidates_def truthy_path_def commonPaths_def host_with_scoop_def host_def)
  have acc: "accepts host_with_scoop = (\<lambda>c. fst c = join_path ''C:/Users/u'' [''scoop'', ''shims'', ''ffmpeg.exe''])"
    by (simp add: accepts_def host_with_scoop_def fun_eq_iff)
  note T = findFfmpeg_probes_in_priority_order [of host_with_scoop "Some ''D:/ffmpeg.exe''" world0]
  from T have 1: "fst (findFfmpeg host_with_scoop (Some ''D:/ffmpeg.exe'') world0)
     = Some (join_path ''C:/Users/u'' [''scoop'', ''shims'', ''ffmpeg.exe''])"
    by (simp add: c acc path_join_def)
  from T have 2: "new_events world0 (snd (findFfmpeg host_with_scoop (Some ''D:/ffmpeg.exe'') world0))
       = [EProbe ''D:/ffmpeg.exe'' False, EProbe ''ffmpeg'' True,
          EProbe (join_path ''C:'' [''ffmpeg'', ''bin'', ''ffmpeg.exe'']) False,
          EProbe (join_path ''C:'' [''Program Files'', ''ffmpeg'', ''bin'', ''ffmpeg.exe'']) False,
          EProbe (join_path ''C:'' [''Program Files (x86)'', ''ffmpeg'', ''bin'', ''ffmpeg.exe'']) False,
          EProbe (join_path ''C:/Users/u'' [''ffmpeg'', ''bin'', ''ffmpeg.exe'']) False,
          EProbe (join_path ''C:/Users/u'' [''scoop'', ''shims'', ''ffmpeg.exe'']) False]"
    by (simp add: c acc path_join_def probe_event_def)
  note U = findFfmpeg_probes_in_priority_order [where e=host_without_ffmpeg and cfg=default_config
      and params=duration5_params and d="Fin 5" and w=world0]
  have len: "length (candidates host_without_ffmpeg (ffmpegPath default_config)) = 6"
    by (simp add: candidates_def truthy_path_def commonPaths_def default_config_def)
  from U candidates_host_without_ffmpeg p
  have 3: "fst (record_screen host_without_ffmpeg default_config duration5_params world0)
       = JsonResult ffmpeg_not_found"
    and 4: "new_events world0 (snd (record_screen host_without_ffmpeg default_config duration5_params world0))
       = map probe_event (candidates host_without_ffmpeg (ffmpegPath default_config))"
    and 5: "files (snd (record_screen host_without_ffmpeg default_config duration5_params world0))
       = files world0"
    and 6: "uuids (snd (record_screen host_without_ffmpeg default_config duration5_params world0))
       = uuids world0"
    by blast+
  show ?thesis using 1 2 3 4 5 6 len by (simp add: world0_def)
qed

section \<open>getMonitorBounds: its result and its calls\<close>

lemma getMonitorBounds_try_fst:
  "fst (getMonitorBounds_try e sp mi w)
     = (case writeFile_error e sp of
          Some msg \<Rightarrow> Inl msg
        | None \<Rightarrow> (case exec_outcome e (powershell_cmd sp) of
                     Inl msg \<Rightarrow> Inl msg
                   | Inr output \<Rightarrow> if unlink_fails e sp then Inl (fs_error e sp)
                                   else Inr (bounds_of_output output mi)))"
  by (simp add: getMonitorBounds_try_def split_beta fst_sel files_sel
      split: option.split sum.split)

lemma getMonitorBounds_fst:
  "fst (getMonitorBounds e mi w)
     = (case getMonitorBounds_try e (getMonitorBounds_scriptPath e w) mi (snd (next_uuid e w)) of
          (Inr b, _) \<Rightarrow> b
        | (Inl _, _) \<Rightarrow> None)"
  by (simp add: getMonitorBounds_def Let_def split_beta split: sum.split)

lemma getMonitorBounds_result:
  "fst (getMonitorBounds e mi w)
     = (case writeFile_error e (getMonitorBounds_scriptPath e w) of
          Some msg \<Rightarrow> None
        | None \<Rightarrow> (case exec_outcome e (powershell_cmd (getMonitorBounds_scriptPath e w)) of
                     Inl msg \<Rightarrow> None
                   | Inr output \<Rightarrow> if unlink_fails e (getMonitorBounds_scriptPath e w) then None
                                   else bounds_of_output output mi))"
  using getMonitorBounds_try_fst [of e "getMonitorBounds_scriptPath e w" mi "snd (next_uuid e w)"]
  by (simp add: getMonitorBounds_fst split_beta split: option.split sum.split)


lemma record_verify_trace:
  "\<exists>mid. trace (snd (record_verify e d fps mi mb rp w))
       = trace w @ EStat rp # mid
           @ (case fst (record_verify e d fps mi mb rp w) of Inr _ \<Rightarrow> [EUnlink rp] | Inl _ \<Rightarrow> [])
     \<and> set mid \<subseteq> {EReadFile rp, ESave ''recordings'' (''screen-recording-'' @ String_of e d @ ''s.mp4'')}"
  by (simp add: record_verify_def split_beta trace_sel split: sum.split)

lemma record_capture_trace:
  "\<exists>mid. trace (snd (record_capture e ff d fps mi mb w))
       = trace w @ ELogInfo (''Recording screen for '' @ String_of e d @ ''s...'')
           # mid @ [EUnlink (record_outputPath e w)]
     \<and> set mid \<subseteq> {ECapture ff (ffmpeg_args e fps mb d (record_outputPath e w)),
                     EStat (record_outputPath e w), EReadFile (record_outputPath e w),
                     ESave ''recordings'' (''screen-recording-'' @ String_of e d @ ''s.mp4'')}"
proof -
  define rp where "rp = record_outputPath e w"
  define r where "r = record_run e ff d fps mb rp (snd (next_uuid e w))"
  obtain mid where mid: "trace (snd (record_verify e d fps mi mb rp (snd r)))
       = trace (snd r) @ EStat rp # mid
           @ (case fst (record_verify e d fps mi mb rp (snd r)) of
                Inr _ \<Rightarrow> [EUnlink rp] | Inl _ \<Rightarrow> [])"
     "set mid \<subseteq> {EReadFile rp, ESave ''recordings'' (''screen-recording-'' @ String_of e d @ ''s.mp4'')}"
    using record_verify_trace by blast
  have r: "fst r = (if valid_timeout (capture_timeout d)
                    then Inr (capture_status e ff (ffmpeg_args e fps mb d rp))
                    else Inl (timeout_error e (capture_timeout d)))"
    by (simp add: r_def record_run_fst)
  have wv: "trace (snd r) = trace w @ ELogInfo (''Recording screen for '' @ String_of e d @ ''s...'')
              # (if valid_timeout (capture_timeout d)
                 then [ECapture ff (ffmpeg_args e fps mb d rp)] else [])"
    by (simp add: r_def record_run_def Let_def trace_sel)
  show ?thesis
  proof (cases "valid_timeout (capture_timeout d)")
    case False
    have "trace (snd (record_capture e ff d fps mi mb w))
       = trace w @ ELogInfo (''Recording screen for '' @ String_of e d @ ''s...'')
           # [] @ [EUnlink rp]"
      unfolding record_capture_def record_try_def Let_def rp_def [symmetric] r_def [symmetric]
      using False r wv by (simp add: split_beta trace_sel)
    then show ?thesis unfolding rp_def by (intro exI [of _ "[]"]) simp
  next
    case True
    have "trace (snd (record_capture e ff d fps mi mb w))
       = trace w @ ELogInfo (''Recording screen for '' @ String_of e d @ ''s...'')
           # (ECapture ff (ffmpeg_args e fps mb d rp) # EStat rp # mid) @ [EUnlink rp]"
      unfolding record_capture_def record_try_def Let_def rp_def [symmetric] r_def [symmetric]
      using True r mid(1) wv by (simp add: split_beta trace_sel split: sum.split)
    then show ?thesis using mid(2) unfolding rp_def
      by (intro exI [of _ "ECapture ff (ffmpeg_args e fps mb d (record_outputPath e w))
                            # EStat (record_outputPath e w) # mid"]) auto
  qed
qed



lemma output_lines_two_bounds:
  "output_lines two_bounds = [''0|0|0|1920|1080'' @ [CHR 0x0D], ''1|1920|0|1280|1024'']"
  by (simp add: two_bounds_def crlf_def output_lines_def trim_def is_ws_def newline_def)



section \<open>C7: verification of the recording, paths in results\<close>

lemma record_verify_fst:
  "fst (record_verify e d fps mi mb rp w)
     = (case files w rp of
          None \<Rightarrow> Inl ''Recording failed - no output file created''
        | Some c \<Rightarrow>
            if content_bytes c = [] then Inl ''Recording produced empty file''
            else (case saveMediaBuffer e (content_bytes c) ''video/mp4'' ''recordings''
                         (100 * 1024 * 1024) (''screen-recording-'' @ String_of e d @ ''s.mp4'') of
                    Inl msg \<Rightarrow> Inl msg
                  | Inr saved \<Rightarrow> Inr (JsonResult (recording_success (String_of e) d fps mi mb saved))))"
  by (simp add: record_verify_def split_beta fst_sel files_sel
      split: option.split sum.split)

lemma record_capture_fst:
  "fst (record_capture e ff d fps mi mb w)
     = (if valid_timeout (capture_timeout d)
        then (case fst (record_verify e d fps mi mb (record_outputPath e w)
                         (verification_world e ff d fps mb w)) of
                Inr res \<Rightarrow> res
              | Inl message \<Rightarrow> recording_failed message)
        else recording_failed (timeout_error e (capture_timeout d)))"
  by (simp add: record_capture_def record_try_def verification_world_def recording_failed_def
      record_run_fst Let_def split_beta split: sum.split)

lemma record_capture_cases:
  obtains (failed) message where
      "fst (record_capture e ff d fps mi mb w) = recording_failed message"
  | (recorded) buffer saved where
      "saveMediaBuffer e buffer ''video/mp4'' ''recordings'' (100 * 1024 * 1024)
         (''screen-recording-'' @ String_of e d @ ''s.mp4'') = Inr saved"
      "fst (record_capture e ff d fps mi mb w)
         = JsonResult (recording_success (String_of e) d fps mi mb saved)"
      "\<exists>c. files (verification_world e ff d fps mb w) (record_outputPath e w) = Some c
           \<and> content_bytes c \<noteq> []"
      "valid_timeout (capture_timeout d)"
proof (cases "valid_timeout (capture_timeout d)")
  case False
  then show ?thesis using failed by (simp add: record_capture_fst)
next
  case None: True
  show ?thesis
  proof (cases "fst (record_verify e d fps mi mb (record_outputPath e w)
                      (verification_world e ff d fps mb w))")
    case (Inl message)
    then show ?thesis using failed None by (simp add: record_capture_fst)
  next
    case (Inr res)
    then obtain c saved where
      "files (verification_world e ff d fps mb w) (record_outputPath e w) = Some c"
      "content_bytes c \<noteq> []"
      "saveMediaBuffer e (content_bytes c) ''video/mp4'' ''recordings'' (100 * 1024 * 1024)
           (''screen-recording-'' @ String_of e d @ ''s.mp4'') = Inr saved"
      "res = JsonResult (recording_success (String_of e) d fps mi mb saved)"
      by (auto simp: record_verify_fst split: option.splits if_splits sum.splits)
    then show ?thesis using recorded Inr None by (simp add: record_capture_fst)
  qed
qed

lemma record_screen_shape_full:
  "(record_duration cfg params = None \<and>
      fst (record_screen e cfg params w)
        = JsonResult (JObj
            [(''error'', JStr ''duration is required''),
             (''hint'', JStr (''Specify duration in seconds (1-'' @ String_of e (maxDuration cfg) @ '')''))]))
   \<or> fst (record_screen e cfg params w) = JsonResult ffmpeg_not_found
   \<or> fst (record_screen e cfg params w)
        = JsonResult (JObj [(''error'', JStr ''Failed to get monitor bounds''),
                            (''hint'', JStr ''Use list_monitors to see available monitors'')])
   \<or> (\<exists>d ff mi mb w1. record_duration cfg params = Some d
         \<and> record_screen e cfg params w = record_capture e ff d (record_fps params) mi mb w1)"
  by (auto simp: record_screen_def Let_def split: option.splits prod.splits)

lemma record_screen_success:
  assumes "\<not> is_error (fst (record_screen e cfg params w))"
  obtains d ff mi mb w1 where "record_duration cfg params = Some d"
    "record_screen e cfg params w = record_capture e ff d (record_fps params) mi mb w1"
  using record_screen_shape_full [of cfg params e w] assms
  by (auto simp: ffmpeg_not_found_def)

lemma is_error_recording_failed [simp]:
  "is_error (recording_failed message)" "result_path (recording_failed message) = JUndefined"
  "result_details (recording_failed message) = JStr message"
  by (simp_all add: recording_failed_def)

lemma recording_success_fields [simp]:
  "json_get ''path'' (recording_success str d fps mi mb saved) = JStr (s_path saved)"
  by (simp add: recording_success_def Let_def)

lemma capture_status_irrelevant [simp]:
  "writeFileSync (e\<lparr>capture_status := st\<rparr>) = writeFileSync e"
  "unlink (e\<lparr>capture_status := st\<rparr>) = unlink e"
  "unlinkSync (e\<lparr>capture_status := st\<rparr>) = unlinkSync e"
  "execSync (e\<lparr>capture_status := st\<rparr>) = execSync e"
  "readFile (e\<lparr>capture_status := st\<rparr>) = readFile e"
  "stat (e\<lparr>capture_status := st\<rparr>) = stat e"
  "save (e\<lparr>capture_status := st\<rparr>) = save e"
  "probe (e\<lparr>capture_status := st\<rparr>) = probe e"
  "next_uuid (e\<lparr>capture_status := st\<rparr>) = next_uuid e"
  "commonPaths (e\<lparr>capture_status := st\<rparr>) = commonPaths e"
  by (simp_all add: fun_eq_iff writeFileSync_def
      unlink_def unlinkSync_def execSync_def readFile_def stat_def save_def probe_def
      next_uuid_def commonPaths_def Let_def cong: option.case_cong if_cong)

lemma record_verify_capture_status [simp]:
  "record_verify (e\<lparr>capture_status := st\<rparr>) = record_verify e"
  by (simp add: fun_eq_iff record_verify_def split_beta Let_def cong: sum.case_cong if_cong)

lemma record_try_capture_status [simp]:
  "record_try (e\<lparr>capture_status := st\<rparr>) ff d fps mi mb rp w = record_try e ff d fps mi mb rp w"
  by (simp add: record_try_def record_run_def spawn_capture_def ffmpeg_args_def Let_def
      split: option.split)

lemma probe_paths_capture_status [simp]:
  "probe_paths (e\<lparr>capture_status := st\<rparr>) ps w = probe_paths e ps w"
  by (induction ps arbitrary: w) (simp_all add: split_beta)

lemma findFfmpeg_capture_status [simp]:
  "findFfmpeg (e\<lparr>capture_status := st\<rparr>) cp w = findFfmpeg e cp w"
  by (simp add: findFfmpeg_def split_beta cong: option.case_cong)

lemma getMonitorBounds_capture_status [simp]:
  "getMonitorBounds (e\<lparr>capture_status := st\<rparr>) mi w = getMonitorBounds e mi w"
  by (simp add: getMonitorBounds_def getMonitorBounds_try_def getMonitorBounds_scriptPath_def
      split_beta Let_def cong: sum.case_cong)

lemma record_capture_capture_status [simp]:
  "record_capture (e\<lparr>capture_status := st\<rparr>) ff d fps mi mb w = record_capture e ff d fps mi mb w"
  by (simp add: record_capture_def record_outputPath_def split_beta Let_def
      cong: sum.case_cong)


lemma record_capture_host:
  "fst (record_capture (host []) ''ffmpeg'' (Fin 5) (Fin 30) None None world0)
     = JsonResult (recording_success (\<lambda>n. ''n'') (Fin 5) (Fin 30) None None
         \<lparr>s_path = ''media/screen-recording-ns.mp4'', s_size = Fin 3, s_contentType = ''video/mp4''\<rparr>)"
  by (simp add: record_capture_fst record_verify_fst verification_world_def record_run_def
      Let_def files_sel host_def content_bytes_def)

lemma floor_eleven_halves: "\<lfloor>11 / 2 :: rat\<rfloor> = 5"
  by (simp add: floor_eq_iff)

lemma record_screen_host:
  "fst (record_screen (host []) default_config duration5_params world0)
     = JsonResult (recording_success (\<lambda>n. ''n'') (Fin 5) (Fin 30) None None
         \<lparr>s_path = ''media/screen-recording-ns.mp4'', s_size = Fin 3, s_contentType = ''video/mp4''\<rparr>)"
proof -
  have f: "fst (findFfmpeg (host []) (ffmpegPath default_config) world0) = Some ''ffmpeg''"
    by (simp add: findFfmpeg_sel candidates_def accepts_def truthy_path_def default_config_def
        host_def)
  have "fst (record_screen (host []) default_config duration5_params world0)
      = fst (record_capture (host []) ''ffmpeg'' (Fin 5) (Fin 30) None None
               (snd (findFfmpeg (host []) (ffmpegPath default_config) world0)))"
    using f
    by (simp add: record_screen_def record_duration_def record_monitorIndex_def record_fps_def
        maxDuration_def duration5_params_def params_of_def default_config_def truthy_path_def
        Let_def split_beta floor_eleven_halves)
  also have "\<dots> = JsonResult (recording_success (\<lambda>n. ''n'') (Fin 5) (Fin 30) None None
         \<lparr>s_path = ''media/screen-recording-ns.mp4'', s_size = Fin 3, s_contentType = ''video/mp4''\<rparr>)"
    by (simp add: record_capture_fst record_verify_fst verification_world_def record_run_def
        Let_def files_sel host_def content_bytes_def)
  finally show ?thesis .
qed

lemma take_screenshot_error_path:
  "is_error (fst (take_screenshot e cfg params w)) \<Longrightarrow>
   result_path (fst (take_screenshot e cfg params w)) = JUndefined"
  by (cases rule: take_screenshot_cases [where e=e and cfg=cfg and params=params and w=w]) simp_all

lemma record_screen_error_path:
  assumes "is_error (fst (record_screen e cfg params w))"
  shows "result_path (fst (record_screen e cfg params w)) = JUndefined"
proof -
  have cap: "result_path (fst (record_capture e ff d fps mi mb w1)) = JUndefined"
    if "is_error (fst (record_capture e ff d fps mi mb w1))" for ff d fps mi mb w1
    using that
    by (cases rule: record_capture_cases [where e=e and ff=ff and d=d and fps=fps and mi=mi
          and mb=mb and w=w1]) simp_all
  from record_screen_shape_full [of cfg params e w] assms cap show ?thesis
    by (auto simp: ffmpeg_not_found_def)
qed

text \<open>
  Claim C7, as amended. A success result of \<open>take_screenshot\<close> or \<open>record_screen\<close> is
  built from what the media store returned and from the echoed request, not from a temp
  path: its path field is the path assigned by the \<open>saveMediaBuffer\<close> call of that
  execution. An error result has no path field.
\<close>

theorem success_results_carry_the_media_store_path:
  "(is_error (fst (take_screenshot e cfg params w)) \<longrightarrow>
      result_path (fst (take_screenshot e cfg params w)) = JUndefined)
   \<and> (\<not> is_error (fst (take_screenshot e cfg params w)) \<longrightarrow>
      (\<exists>buffer saved.
          saveMediaBuffer e buffer
            (if screenshot_format cfg = Jpeg then ''image/jpeg'' else ''image/png'')
            ''screenshots'' (10 * 1024 * 1024)
            (''screenshot.'' @ format_str (screenshot_format cfg)) = Inr saved
        \<and> fst (take_screenshot e cfg params w)
            = ImageResult ''Screenshot'' (s_path saved)
                (screenshot_extraText (String_of e) (screenshot_monitor cfg params)
                   (screenshot_format cfg) saved)
                (screenshot_details (screenshot_monitor cfg params) (screenshot_format cfg)
                   (screenshot_delay params) saved)
        \<and> result_path (fst (take_screenshot e cfg params w)) = JStr (s_path saved)))
   \<and> (is_error (fst (record_screen e cfg params w)) \<longrightarrow>
      result_path (fst (record_screen e cfg params w)) = JUndefined)
   \<and> (\<not> is_error (fst (record_screen e cfg params w)) \<longrightarrow>
      (\<exists>buffer saved d mi mb.
          saveMediaBuffer e buffer ''video/mp4'' ''recordings'' (100 * 1024 * 1024)
            (''screen-recording-'' @ String_of e d @ ''s.mp4'') = Inr saved
        \<and> fst (record_screen e cfg params w)
            = JsonResult (recording_success (String_of e) d (record_fps params) mi mb saved)
        \<and> result_path (fst (record_screen e cfg params w)) = JStr (s_path saved)))"
proof -
  have a: "\<exists>buffer saved.
          saveMediaBuffer e buffer
            (if screenshot_format cfg = Jpeg then ''image/jpeg'' else ''image/png'')
            ''screenshots'' (10 * 1024 * 1024)
            (''screenshot.'' @ format_str (screenshot_format cfg)) = Inr saved
        \<and> fst (take_screenshot e cfg params w)
            = ImageResult ''Screenshot'' (s_path saved)
                (screenshot_extraText (String_of e) (screenshot_monitor cfg params)
                   (screenshot_format cfg) saved)
                (screenshot_details (screenshot_monitor cfg params) (screenshot_format cfg)
                   (screenshot_delay params) saved)
        \<and> result_path (fst (take_screenshot e cfg params w)) = JStr (s_path saved)"
    if ok: "\<not> is_error (fst (take_screenshot e cfg params w))"
  proof (cases rule: take_screenshot_cases [where e=e and cfg=cfg and params=params and w=w])
    case (failed message)
    then show ?thesis using ok by simp
  next
    case (captured buffer saved)
    then have "saveMediaBuffer e buffer
            (if screenshot_format cfg = Jpeg then ''image/jpeg'' else ''image/png'')
            ''screenshots'' (10 * 1024 * 1024)
            (''screenshot.'' @ format_str (screenshot_format cfg)) = Inr saved
        \<and> fst (take_screenshot e cfg params w)
            = ImageResult ''Screenshot'' (s_path saved)
                (screenshot_extraText (String_of e) (screenshot_monitor cfg params)
                   (screenshot_format cfg) saved)
                (screenshot_details (screenshot_monitor cfg params) (screenshot_format cfg)
                   (screenshot_delay params) saved)
        \<and> result_path (fst (take_screenshot e cfg params w)) = JStr (s_path saved)"
      by simp
    then show ?thesis by blast
  qed
  have b: "\<exists>buffer saved d mi mb.
          saveMediaBuffer e buffer ''video/mp4'' ''recordings'' (100 * 1024 * 1024)
            (''screen-recording-'' @ String_of e d @ ''s.mp4'') = Inr saved
        \<and> fst (record_screen e cfg params w)
            = JsonResult (recording_success (String_of e) d (record_fps params) mi mb saved)
        \<and> result_path (fst (record_screen e cfg params w)) = JStr (s_path saved)"
    if ok: "\<not> is_error (fst (record_screen e cfg params w))"
  proof -
    from ok obtain d ff mi mb w1 where
      eq: "record_screen e cfg params w = record_capture e ff d (record_fps params) mi mb w1"
      by (rule record_screen_success)
    show ?thesis
    proof (cases rule: record_capture_cases [where e=e and ff=ff and d=d
          and fps="record_fps params" and mi=mi and mb=mb and w=w1])
      case (failed message)
      then show ?thesis using ok eq by simp
    next
      case (recorded buffer saved)
      then have "saveMediaBuffer e buffer ''video/mp4'' ''recordings'' (100 * 1024 * 1024)
            (''screen-recording-'' @ String_of e d @ ''s.mp4'') = Inr saved
        \<and> fst (record_screen e cfg params w)
            = JsonResult (recording_success (String_of e) d (record_fps params) mi mb saved)
        \<and> result_path (fst (record_screen e cfg params w)) = JStr (s_path saved)"
        using eq by simp
      then show ?thesis by blast
    qed
  qed
  show ?thesis
    using a b take_screenshot_error_path [of e cfg params w]
      record_screen_error_path [of e cfg params w]
    by blast
qed

lemmas take_screenshot_eval = take_screenshot_def screenshot_try_def screenshot_success_def
  screenshot_delay_def screenshot_monitor_def screenshot_format_def
  screenshot_outputPath_def screenshot_scriptPath_def screenshot_extraText_def
  screenshot_details_def createScreenshotScript_def params_of_def default_config_def
  world0_def path_join_def powershell_cmd_def content_bytes_def Let_def eval_defs

lemma take_screenshot_host_failing_scripts:
  "fst (take_screenshot host_failing_scripts default_config no_params world0)
     = JsonResult (JObj
         [(''error'', JStr ''Screenshot capture failed''),
          (''details'', JStr (''Command failed: powershell -NoProfile -ExecutionPolicy Bypass -File ''
                              @ [CHR 0x22] @ ''C:/Temp'' @ [CHR 0x5C] @ ''screenshot-aa.ps1'' @ [CHR 0x22])),
          (''platform'', JStr ''win32'')])"
  by (simp add: take_screenshot_eval no_params_def host_failing_scripts_def host_def)

lemma record_screen_host_no_recording:
  "fst (record_screen host_no_recording default_config duration5_params world0)
     = recording_failed ''Recording failed - no output file created''"
proof -
  have f: "fst (findFfmpeg host_no_recording (ffmpegPath default_config) world0) = Some ''ffmpeg''"
    by (simp add: findFfmpeg_sel candidates_def accepts_def truthy_path_def default_config_def
        host_no_recording_def host_def)
  have "fst (record_screen host_no_recording default_config duration5_params world0)
      = fst (record_capture host_no_recording ''ffmpeg'' (Fin 5) (Fin 30) None None
               (snd (findFfmpeg host_no_recording (ffmpegPath default_config) world0)))"
    using f
    by (simp add: record_screen_def record_duration_def record_monitorIndex_def record_fps_def
        maxDuration_def duration5_params_def params_of_def default_config_def truthy_path_def
        Let_def split_beta floor_eleven_halves)
  also have "\<dots> = recording_failed ''Recording failed - no output file created''"
    by (simp add: record_capture_fst record_verify_fst verification_world_def record_run_def
        Let_def files_sel findFfmpeg_sel host_no_recording_def world0_def)
  finally show ?thesis .
qed

text \<open>
  The amended claim C7 on a successful screenshot and a successful recording, and on a
  failed screenshot and a failed recording.
\<close>

theorem success_results_carry_the_media_store_path_witness:
  "result_path (fst (take_screenshot (host []) default_config monitor5_params world0))
     = JStr ''media/screenshot.png''
   \<and> result_path (fst (record_screen (host []) default_config duration5_params world0))
     = JStr ''media/screen-recording-ns.mp4''
   \<and> is_error (fst (take_screenshot host_failing_scripts default_config no_params world0))
   \<and> result_path (fst (take_screenshot host_failing_scripts default_config no_params world0))
     = JUndefined
   \<and> is_error (fst (record_screen host_no_recording default_config duration5_params world0))
   \<and> result_path (fst (record_screen host_no_recording default_config duration5_params world0))
     = JUndefined"
proof -
  have ok1: "\<not> is_error (fst (take_screenshot (host []) default_config monitor5_params world0))"
    by (simp add: take_screenshot_host_monitor5)
  have ok2: "\<not> is_error (fst (record_screen (host []) default_config duration5_params world0))"
    by (simp add: record_screen_host)
  have er1: "is_error (fst (take_screenshot host_failing_scripts default_config no_params world0))"
    by (simp add: take_screenshot_host_failing_scripts)
  have er2: "is_error (fst (record_screen host_no_recording default_config duration5_params world0))"
    by (simp add: record_screen_host_no_recording)
  note T = success_results_carry_the_media_store_path
             [where e="host []" and cfg=default_config and w=world0]
  from T [where params=monitor5_params] ok1 obtain saved where
    "fst (take_screenshot (host []) default_config monitor5_params world0)
       = ImageResult ''Screenshot'' (s_path saved)
           (screenshot_extraText (String_of (host [])) (screenshot_monitor default_config monitor5_params)
              (screenshot_format default_config) saved)
           (screenshot_details (screenshot_monitor default_config monitor5_params)
              (screenshot_format default_config) (screenshot_delay monitor5_params) saved)"
    "result_path (fst (take_screenshot (host []) default_config monitor5_params world0))
       = JStr (s_path saved)"
    by blast
  then have 1: "result_path (fst (take_screenshot (host []) default_config monitor5_params world0))
     = JStr ''media/screenshot.png''"
    by (simp add: take_screenshot_host_monitor5)
  from T [where params=duration5_params] ok2 obtain saved d mi mb where
    "fst (record_screen (host []) default_config duration5_params world0)
       = JsonResult (recording_success (String_of (host [])) d (record_fps duration5_params) mi mb saved)"
    "result_path (fst (record_screen (host []) default_config duration5_params world0))
       = JStr (s_path saved)"
    by blast
  then have 2: "result_path (fst (record_screen (host []) default_config duration5_params world0))
     = JStr ''media/screen-recording-ns.mp4''"
    by (simp add: record_screen_host recording_success_def Let_def)
  from success_results_carry_the_media_store_path
         [where e=host_failing_scripts and cfg=default_config and w=world0 and params=no_params] er1
  have 3: "result_path (fst (take_screenshot host_failing_scripts default_config no_params world0))
     = JUndefined"
    by blast
  from success_results_carry_the_media_store_path
         [where e=host_no_recording and cfg=default_config and w=world0 and params=duration5_params] er2
  have 4: "result_path (fst (record_screen host_no_recording default_config duration5_params world0))
     = JUndefined"
    by blast
  show ?thesis using 1 2 er1 3 er2 4 by blast
qed

text \<open>
  Claim C7 as it is written fails on error results: they carry the message of the
  caught error in \<open>details\<close>. When the capture script fails and the error quotes the
  command line, as the error of \<open>execSync\<close> does, the result of \<open>take_screenshot\<close>
  names the temp script path.
\<close>

theorem error_result_names_temp_script_counterexample:
  "screenshot_scriptPath host_failing_scripts world0 = ''C:/Temp'' @ [CHR 0x5C] @ ''screenshot-aa.ps1''
   \<and> result_details (fst (take_screenshot host_failing_scripts default_config no_params world0))
       = JStr (''Command failed: powershell -NoProfile -ExecutionPolicy Bypass -File ''
               @ [CHR 0x22] @ screenshot_scriptPath host_failing_scripts world0 @ [CHR 0x22])"
proof -
  have p: "screenshot_scriptPath host_failing_scripts world0
             = ''C:/Temp'' @ [CHR 0x5C] @ ''screenshot-aa.ps1''"
    by (simp add: screenshot_scriptPath_def path_join_def host_failing_scripts_def host_def
        world0_def)
  have d: "result_details (fst (take_screenshot host_failing_scripts default_config no_params world0))
       = JStr (''Command failed: powershell -NoProfile -ExecutionPolicy Bypass -File ''
               @ [CHR 0x22] @ (''C:/Temp'' @ [CHR 0x5C] @ ''screenshot-aa.ps1'') @ [CHR 0x22])"
    by (simp add: take_screenshot_host_failing_scripts)
  show ?thesis using d unfolding p by (rule conjI [OF refl])
qed

section \<open>C2: deletion of the temp artifacts\<close>

lemma new_events_append [simp]: "trace w' = trace w @ evs \<Longrightarrow> new_events w w' = evs"
  by (simp add: new_events_def)

lemma list_monitors_trace:
  "trace (snd (list_monitors e w))
     = trace w @ (case writeFile_error e (list_monitors_scriptPath e w) of
          Some msg \<Rightarrow> [EWriteFile (list_monitors_scriptPath e w) ListMonitorsScript,
                       EUnlink (list_monitors_scriptPath e w)]
        | None \<Rightarrow> [EWriteFile (list_monitors_scriptPath e w) ListMonitorsScript,
                    EExec (powershell_cmd (list_monitors_scriptPath e w)),
                    EUnlink (list_monitors_scriptPath e w)])"
  by (simp add: list_monitors_def list_monitors_try_def Let_def split_beta trace_sel
      writeFileSync_sel(1) execSync_sel(1) split: sum.split option.split)

lemma list_monitors_files:
  "\<not> unlink_fails e (list_monitors_scriptPath e w) \<Longrightarrow>
   files (snd (list_monitors e w)) (list_monitors_scriptPath e w) = None"
  by (simp add: list_monitors_def list_monitors_try_def Let_def split_beta files_sel
      split: sum.split)

lemma list_monitors_cleanup:
  "unlink_count (list_monitors_scriptPath e w) w (snd (list_monitors e w)) = 1
   \<and> (\<not> unlink_fails e (list_monitors_scriptPath e w) \<longrightarrow>
        files (snd (list_monitors e w)) (list_monitors_scriptPath e w) = None)"
  using list_monitors_files [of e w]
  by (simp add: unlink_count_def new_events_append [OF list_monitors_trace] split: option.split)

lemma getMonitorBounds_trace:
  "trace (snd (getMonitorBounds e mi w))
     = trace w @ (case writeFile_error e (getMonitorBounds_scriptPath e w) of
          Some msg \<Rightarrow> [EWriteFile (getMonitorBounds_scriptPath e w) GetMonitorBoundsScript,
                       EUnlink (getMonitorBounds_scriptPath e w)]
        | None \<Rightarrow>
            (case exec_outcome e (powershell_cmd (getMonitorBounds_scriptPath e w)) of
               Inl msg \<Rightarrow> [EWriteFile (getMonitorBounds_scriptPath e w) GetMonitorBoundsScript,
                            EExec (powershell_cmd (getMonitorBounds_scriptPath e w)),
                            EUnlink (getMonitorBounds_scriptPath e w)]
             | Inr out \<Rightarrow>
                 [EWriteFile (getMonitorBounds_scriptPath e w) GetMonitorBoundsScript,
                  EExec (powershell_cmd (getMonitorBounds_scriptPath e w)),
                  EUnlink (getMonitorBounds_scriptPath e w)]
                 @ (if unlink_fails e (getMonitorBounds_scriptPath e w)
                    then [EUnlink (getMonitorBounds_scriptPath e w)] else [])))"
  by (simp add: getMonitorBounds_def getMonitorBounds_try_def Let_def split_beta trace_sel
      files_sel writeFileSync_sel(1) execSync_sel(1) unlinkSync_sel(1)
      split: sum.split option.split)

lemma getMonitorBounds_files:
  "files (snd (getMonitorBounds e mi w))
     = (if unlink_fails e (getMonitorBounds_scriptPath e w)
        then (if writeFile_error e (getMonitorBounds_scriptPath e w) = None
              then (files w)(getMonitorBounds_scriptPath e w \<mapsto> GetMonitorBoundsScript)
              else files w)
        else (files w)(getMonitorBounds_scriptPath e w := None))"
  by (simp add: getMonitorBounds_def getMonitorBounds_try_def Let_def split_beta files_sel
      split: sum.split)

lemma getMonitorBounds_uuids: "uuids (snd (getMonitorBounds e mi w)) = Suc (uuids w)"
  by (simp add: getMonitorBounds_def getMonitorBounds_try_def Let_def split_beta uuids_sel
      split: sum.split)

lemma getMonitorBounds_cleanup:
  "unlink_count (getMonitorBounds_scriptPath e w) w (snd (getMonitorBounds e mi w))
     = (if writeFile_error e (getMonitorBounds_scriptPath e w) = None
           \<and> (\<exists>out. exec_outcome e (powershell_cmd (getMonitorBounds_scriptPath e w)) = Inr out)
           \<and> unlink_fails e (getMonitorBounds_scriptPath e w)
        then 2 else 1)
   \<and> (\<not> unlink_fails e (getMonitorBounds_scriptPath e w) \<longrightarrow>
        files (snd (getMonitorBounds e mi w)) (getMonitorBounds_scriptPath e w) = None)"
  by (simp add: unlink_count_def new_events_append [OF getMonitorBounds_trace]
      getMonitorBounds_files split: option.split sum.split)

lemma format_str_last: "last (format_str f) = CHR ''g''" "format_str f \<noteq> []"
  by (cases f; simp)+

lemma screenshot_paths_distinct: "screenshot_outputPath e cfg w \<noteq> screenshot_scriptPath e w"
proof
  assume "screenshot_outputPath e cfg w = screenshot_scriptPath e w"
  then have "last (screenshot_outputPath e cfg w) = last (screenshot_scriptPath e w)" by simp
  then show False
    by (simp add: screenshot_outputPath_def screenshot_scriptPath_def path_join_def
        format_str_last)
qed

lemma record_paths_distinct: "getMonitorBounds_scriptPath e w \<noteq> record_outputPath e w'"
proof
  assume "getMonitorBounds_scriptPath e w = record_outputPath e w'"
  then have "last (getMonitorBounds_scriptPath e w) = last (record_outputPath e w')" by simp
  then show False
    by (simp add: getMonitorBounds_scriptPath_def record_outputPath_def path_join_def)
qed

lemma drop_trace_append [simp]: "drop (length xs) (xs @ ys) = ys"
  by simp

lemma quiet_simps [simp]:
  "quiet []"
  "quiet (ev # evs) = (((\<forall>q. ev \<noteq> EUnlink q) \<and> (\<forall>q. ev \<noteq> EImageResult q)) \<and> quiet evs)"
  "quiet (xs @ ys) = (quiet xs \<and> quiet ys)"
  by (auto simp: quiet_def)

lemma screenshot_try_reaches:
  "(\<exists>msg evs. fst (screenshot_try e m f d op sp w) = Inl msg
       \<and> trace (snd (screenshot_try e m f d op sp w)) = trace w @ evs \<and> quiet evs)
   \<or> (\<exists>saved w4 evs. screenshot_try e m f d op sp w
          = screenshot_success e m f d saved (unlink e sp (unlink e op w4))
        \<and> trace w4 = trace w @ evs \<and> quiet evs)"
proof -
  define c where "c = createScreenshotScript op m f"
  define ct where "ct = (if f = Jpeg then ''image/jpeg'' else ''image/png'')"
  define fn where "fn = ''screenshot.'' @ format_str f"
  define w1 where "w1 = snd (writeFileSync e sp c w)"
  define w2 where "w2 = snd (exec_screenshot e sp op w1)"
  define w3 where "w3 = snd (readFile e op w2)"
  define sv where "sv = (\<lambda>buffer. save e buffer ct ''screenshots'' (10 * 1024 * 1024) fn w3)"
  have tr: "trace w1 = trace w @ [EWriteFile sp c]"
      "trace w2 = trace w @ [EWriteFile sp c, EExec (powershell_cmd sp)]"
      "trace w3 = trace w @ [EWriteFile sp c, EExec (powershell_cmd sp), EReadFile op]"
      "\<And>buffer. trace (snd (sv buffer))
         = trace w @ [EWriteFile sp c, EExec (powershell_cmd sp), EReadFile op, ESave ''screenshots'' fn]"
    by (simp_all add: w1_def w2_def w3_def sv_def trace_sel)
  have t: "screenshot_try e m f d op sp w
      = (case fst (writeFileSync e sp c w) of
           Inl msg \<Rightarrow> (Inl msg, w1)
         | Inr _ \<Rightarrow>
            (case fst (exec_screenshot e sp op w1) of
               Inl msg \<Rightarrow> (Inl msg, w2)
             | Inr _ \<Rightarrow>
                (case fst (readFile e op w2) of
                   Inl msg \<Rightarrow> (Inl msg, w3)
                 | Inr buffer \<Rightarrow>
                    (case fst (sv buffer) of
                       Inl msg \<Rightarrow> (Inl msg, snd (sv buffer))
                     | Inr saved \<Rightarrow>
                         screenshot_success e m f d saved
                           (unlink e sp (unlink e op (snd (sv buffer))))))))"
    unfolding screenshot_try_def c_def [symmetric] ct_def [symmetric] fn_def [symmetric]
    by (simp add: split_beta w1_def w2_def w3_def sv_def split: sum.split)
  show ?thesis
  proof (cases "fst (writeFileSync e sp c w)")
    case (Inl msg)
    then have "fst (screenshot_try e m f d op sp w) = Inl msg"
        "trace (snd (screenshot_try e m f d op sp w)) = trace w @ [EWriteFile sp c]"
      by (simp_all add: t tr)
    then show ?thesis by (intro disjI1 exI [of _ msg] exI [of _ "[EWriteFile sp c]"]) simp
  next
    case a: (Inr u)
    show ?thesis
    proof (cases "fst (exec_screenshot e sp op w1)")
      case (Inl msg)
      then have "fst (screenshot_try e m f d op sp w) = Inl msg"
          "trace (snd (screenshot_try e m f d op sp w))
             = trace w @ [EWriteFile sp c, EExec (powershell_cmd sp)]"
        using a by (simp_all add: t tr)
      then show ?thesis
        by (intro disjI1 exI [of _ msg] exI [of _ "[EWriteFile sp c, EExec (powershell_cmd sp)]"])
           simp
    next
      case b: (Inr out)
      show ?thesis
      proof (cases "fst (readFile e op w2)")
        case (Inl msg)
        then have "fst (screenshot_try e m f d op sp w) = Inl msg"
            "trace (snd (screenshot_try e m f d op sp w))
               = trace w @ [EWriteFile sp c, EExec (powershell_cmd sp), EReadFile op]"
          using a b by (simp_all add: t tr)
        then show ?thesis
          by (intro disjI1 exI [of _ msg]
                exI [of _ "[EWriteFile sp c, EExec (powershell_cmd sp), EReadFile op]"]) simp
      next
        case r: (Inr buffer)
        show ?thesis
        proof (cases "fst (sv buffer)")
          case (Inl msg)
          then have "fst (screenshot_try e m f d op sp w) = Inl msg"
              "trace (snd (screenshot_try e m f d op sp w))
                 = trace w @ [EWriteFile sp c, EExec (powershell_cmd sp), EReadFile op,
                              ESave ''screenshots'' fn]"
            using a b r by (simp_all add: t tr)
          then show ?thesis
            by (intro disjI1 exI [of _ msg]
                  exI [of _ "[EWriteFile sp c, EExec (powershell_cmd sp), EReadFile op,
                              ESave ''screenshots'' fn]"]) simp
        next
          case (Inr saved)
          then have "screenshot_try e m f d op sp w
              = screenshot_success e m f d saved (unlink e sp (unlink e op (snd (sv buffer))))"
            using a b r by (simp add: t)
          then show ?thesis
            using tr(4) [of buffer]
            by (intro disjI2 exI [of _ saved] exI [of _ "snd (sv buffer)"]
                  exI [of _ "[EWriteFile sp c, EExec (powershell_cmd sp), EReadFile op,
                              ESave ''screenshots'' fn]"]) simp
        qed
      qed
    qed
  qed
qed

lemma quiet_count [simp]: "quiet evs \<Longrightarrow> count_list evs (EUnlink p) = 0"
  by (induction evs) auto

lemma quiet_no_image [simp]: "quiet evs \<Longrightarrow> EImageResult q \<notin> set evs"
  by (auto simp: quiet_def)

lemma take_screenshot_cleanup:
  assumes p: "p = screenshot_outputPath e cfg w \<or> p = screenshot_scriptPath e w"
  shows "unlink_count p w (snd (take_screenshot e cfg params w))
     = (if is_error (fst (take_screenshot e cfg params w))
           \<and> (\<exists>q. EImageResult q \<in> set (new_events w (snd (take_screenshot e cfg params w))))
        then 2 else 1)
   \<and> (\<not> unlink_fails e p \<longrightarrow> files (snd (take_screenshot e cfg params w)) p = None)"
proof -
  define op where "op = screenshot_outputPath e cfg w"
  define sp where "sp = screenshot_scriptPath e w"
  define w1 where "w1 = (if js_gt (screenshot_delay params) (Fin 0)
                         then emit (ESleep (screenshot_delay params)) w else w)"
  define w2 where "w2 = snd (next_uuid e (snd (next_uuid e w1)))"
  define t where "t = screenshot_try e (screenshot_monitor cfg params) (screenshot_format cfg)
                        (screenshot_delay params) op sp w2"
  have paths: "screenshot_scriptPath e w1 = sp" "screenshot_outputPath e cfg w1 = op"
    by (simp_all add: w1_def sp_def op_def)
  have ne: "op \<noteq> sp"
    unfolding op_def sp_def by (rule screenshot_paths_distinct)
  obtain pre where pre: "trace w2 = trace w @ pre" "quiet pre"
    by (cases "js_gt (screenshot_delay params) (Fin 0)") (simp_all add: w2_def w1_def)
  have ts: "take_screenshot e cfg params w
      = (case fst t of
           Inr res \<Rightarrow> (res, snd t)
         | Inl message \<Rightarrow>
             (JsonResult (JObj [(''error'', JStr ''Screenshot capture failed''),
                                (''details'', JStr message),
                                (''platform'', JStr (platform e))]),
              unlink e sp (unlink e op (snd t))))"
    unfolding take_screenshot_def Let_def
    by (simp add: split_beta paths w1_def [symmetric] w2_def [symmetric] t_def [symmetric]
        split: sum.split) (simp add: sp_def op_def)
  have pp: "p = op \<or> p = sp" using p by (simp add: op_def sp_def)
  from screenshot_try_reaches [of e "screenshot_monitor cfg params" "screenshot_format cfg"
      "screenshot_delay params" op sp w2]
  consider (early) msg evs where "fst t = Inl msg" "trace (snd t) = trace w2 @ evs" "quiet evs"
    | (reached) saved w4 evs where
        "t = screenshot_success e (screenshot_monitor cfg params) (screenshot_format cfg)
               (screenshot_delay params) saved (unlink e sp (unlink e op w4))"
        "trace w4 = trace w2 @ evs" "quiet evs"
    unfolding t_def by blast
  then show ?thesis
  proof cases
    case early
    have tr: "trace (snd (take_screenshot e cfg params w))
        = trace w @ (pre @ evs @ [EUnlink op, EUnlink sp])"
      using early pre by (simp add: ts trace_sel)
    have er: "is_error (fst (take_screenshot e cfg params w))"
      using early by (simp add: ts)
    have fl: "\<not> unlink_fails e p \<longrightarrow> files (snd (take_screenshot e cfg params w)) p = None"
      using early pp by (auto simp: ts files_sel)
    show ?thesis
      using pp ne early(3) pre(2) fl
      by (auto simp: unlink_count_def new_events_append [OF tr])
  next
    case reached
    define q where "q = s_path saved"
    define w5 where "w5 = unlink e sp (unlink e op w4)"
    have t5: "trace (snd t) = trace w @ (pre @ evs @ [EUnlink op, EUnlink sp, EImageResult q])"
      using reached pre by (simp add: screenshot_success_def trace_sel q_def)
    have f5: "\<not> unlink_fails e p \<longrightarrow> files (snd t) p = None"
      using reached pp by (auto simp: screenshot_success_def files_sel)
    show ?thesis
    proof (cases "imageResult_error e q")
      case None
      then have ok: "fst t = Inr (ImageResult ''Screenshot'' q
          (screenshot_extraText (String_of e) (screenshot_monitor cfg params)
             (screenshot_format cfg) saved)
          (screenshot_details (screenshot_monitor cfg params) (screenshot_format cfg)
             (screenshot_delay params) saved))"
        using reached by (simp add: screenshot_success_def imageResultFromFile_sel(1) q_def)
      have tr: "trace (snd (take_screenshot e cfg params w))
          = trace w @ (pre @ evs @ [EUnlink op, EUnlink sp, EImageResult q])"
        using ok t5 by (simp add: ts)
      have "\<not> is_error (fst (take_screenshot e cfg params w))"
        using ok by (simp add: ts)
      moreover have "\<not> unlink_fails e p \<longrightarrow> files (snd (take_screenshot e cfg params w)) p = None"
        using ok f5 by (simp add: ts)
      ultimately show ?thesis
        using pp ne reached(3) pre(2)
        by (auto simp: unlink_count_def new_events_append [OF tr])
    next
      case (Some msg)
      then have bad: "fst t = Inl msg"
        using reached by (simp add: screenshot_success_def imageResultFromFile_sel(1) q_def)
      have tr: "trace (snd (take_screenshot e cfg params w))
          = trace w @ (pre @ evs @ [EUnlink op, EUnlink sp, EImageResult q, EUnlink op, EUnlink sp])"
        using bad t5 by (simp add: ts trace_sel)
      have "is_error (fst (take_screenshot e cfg params w))"
        using bad by (simp add: ts)
      moreover have "\<not> unlink_fails e p \<longrightarrow> files (snd (take_screenshot e cfg params w)) p = None"
        using bad pp by (auto simp: ts files_sel)
      ultimately show ?thesis
        using pp ne reached(3) pre(2)
        by (auto simp: unlink_count_def new_events_append [OF tr])
    qed
  qed
qed

lemma record_capture_uuids: "uuids (snd (record_capture e ff d fps mi mb w)) = Suc (uuids w)"
  by (simp add: record_capture_def record_try_def record_verify_def record_run_def Let_def
      split_beta uuids_sel split: sum.split)

lemma record_capture_files:
  "files (snd (record_capture e ff d fps mi mb w))
     = (if unlink_fails e (record_outputPath e w)
        then files (verification_world e ff d fps mb w)
        else (files (verification_world e ff d fps mb w))(record_outputPath e w := None))"
  by (simp add: record_capture_def record_try_def record_verify_def verification_world_def
      Let_def split_beta files_sel split: sum.split)

lemma verification_world_files:
  "p \<noteq> record_outputPath e w \<Longrightarrow> files (verification_world e ff d fps mb w) p = files w p"
  by (simp add: verification_world_def record_run_def Let_def files_sel split: option.split)

lemma record_capture_files_other:
  "p \<noteq> record_outputPath e w \<Longrightarrow> files (snd (record_capture e ff d fps mi mb w)) p = files w p"
  by (simp add: record_capture_files verification_world_files)

lemma record_capture_unlinks:
  "count_list (new_events w (snd (record_capture e ff d fps mi mb w))) (EUnlink p)
     = (if p = record_outputPath e w then 1 else 0)"
proof -
  obtain mid where mid: "trace (snd (record_capture e ff d fps mi mb w))
       = trace w @ (ELogInfo (''Recording screen for '' @ String_of e d @ ''s...'')
           # mid @ [EUnlink (record_outputPath e w)])"
     "set mid \<subseteq> {ECapture ff (ffmpeg_args e fps mb d (record_outputPath e w)),
                     EStat (record_outputPath e w), EReadFile (record_outputPath e w),
                     ESave ''recordings'' (''screen-recording-'' @ String_of e d @ ''s.mp4'')}"
    using record_capture_trace [of e ff d fps mi mb w] by auto
  have "EUnlink p \<notin> set mid" using mid(2) by auto
  then have "count_list mid (EUnlink p) = 0" by (simp add: count_list_0_iff)
  then show ?thesis by (simp add: new_events_append [OF mid(1)])
qed

lemma findFfmpeg_unlinks:
  "count_list (new_events w (snd (findFfmpeg e cp w))) (EUnlink p) = 0"
proof -
  have "trace (snd (findFfmpeg e cp w)) = trace w @ map probe_event (probed (accepts e) (candidates e cp))"
    by (simp add: findFfmpeg_sel)
  from new_events_append [OF this] show ?thesis
    by (simp add: count_list_0_iff probe_event_def image_iff)
qed

lemma getMonitorBounds_unlinks:
  "count_list (new_events w (snd (getMonitorBounds e mi w))) (EUnlink p)
     = (if p = getMonitorBounds_scriptPath e w
        then (if writeFile_error e (getMonitorBounds_scriptPath e w) = None
                 \<and> (\<exists>out. exec_outcome e (powershell_cmd (getMonitorBounds_scriptPath e w)) = Inr out)
                 \<and> unlink_fails e (getMonitorBounds_scriptPath e w)
              then 2 else 1)
        else 0)"
  by (simp add: new_events_append [OF getMonitorBounds_trace] split: option.split sum.split)

lemma new_events_trans:
  assumes "trace w1 = trace w @ a" "trace w2 = trace w1 @ b"
  shows "new_events w w2 = new_events w w1 @ new_events w1 w2"
  using assms by (simp add: new_events_def)

lemma findFfmpeg_extends: "\<exists>a. trace (snd (findFfmpeg e cp w)) = trace w @ a"
  by (simp add: findFfmpeg_sel)

lemma getMonitorBounds_extends: "\<exists>a. trace (snd (getMonitorBounds e mi w)) = trace w @ a"
  by (simp add: getMonitorBounds_trace)

lemma record_capture_extends: "\<exists>a. trace (snd (record_capture e ff d fps mi mb w)) = trace w @ a"
  using record_capture_trace [of e ff d fps mi mb w] by auto

lemma paths_depend_on_uuids:
  "uuids w1 = uuids w \<Longrightarrow> getMonitorBounds_scriptPath e w1 = getMonitorBounds_scriptPath e w"
  "uuids w1 = uuids w \<Longrightarrow> record_outputPath e w1 = record_outputPath e w"
  by (simp_all add: getMonitorBounds_scriptPath_def record_outputPath_def)

lemma record_screen_world:
  "snd (record_screen e cfg params w) = w
   \<or> snd (record_screen e cfg params w) = snd (findFfmpeg e (ffmpegPath cfg) w)
   \<or> (record_monitorIndex params = None
       \<and> (\<exists>d ff. snd (record_screen e cfg params w)
             = snd (record_capture e ff d (record_fps params) None None
                      (snd (findFfmpeg e (ffmpegPath cfg) w)))))
   \<or> (\<exists>mi. record_monitorIndex params = Some mi
       \<and> (snd (record_screen e cfg params w)
             = snd (getMonitorBounds e mi (snd (findFfmpeg e (ffmpegPath cfg) w)))
          \<or> (\<exists>d ff b. snd (record_screen e cfg params w)
                = snd (record_capture e ff d (record_fps params) (Some mi) (Some b)
                         (snd (getMonitorBounds e mi (snd (findFfmpeg e (ffmpegPath cfg) w))))))))"
  by (auto simp: record_screen_def Let_def split_beta split: option.splits)

lemma record_screen_cleanup:
  "\<forall>p\<in>set (record_screen_temp_paths e params w (snd (record_screen e cfg params w))).
      unlink_count p w (snd (record_screen e cfg params w))
        = (if p = getMonitorBounds_scriptPath e w
              \<and> writeFile_error e p = None
              \<and> (\<exists>out. exec_outcome e (powershell_cmd p) = Inr out)
              \<and> unlink_fails e p
           then 2 else 1)
      \<and> (\<not> unlink_fails e p \<longrightarrow> files (snd (record_screen e cfg params w)) p = None)"
proof -
  define w1 where "w1 = snd (findFfmpeg e (ffmpegPath cfg) w)"
  define bp where "bp = getMonitorBounds_scriptPath e w"
  have u1: "uuids w1 = uuids w" and f1: "files w1 = files w"
    by (simp_all add: w1_def findFfmpeg_sel)
  obtain a where a: "trace w1 = trace w @ a"
    unfolding w1_def using findFfmpeg_extends by blast
  have c1: "count_list (new_events w w1) (EUnlink p) = 0" for p
    unfolding w1_def by (rule findFfmpeg_unlinks)
  have bp1: "getMonitorBounds_scriptPath e w1 = bp"
    unfolding bp_def using u1 by (rule paths_depend_on_uuids)
  from record_screen_world [of e cfg params w]
  consider (early) "uuids (snd (record_screen e cfg params w)) = uuids w"
    | (all_displays) d ff where "record_monitorIndex params = None"
        "snd (record_screen e cfg params w) = snd (record_capture e ff d (record_fps params) None None w1)"
    | (no_bounds) mi where "record_monitorIndex params = Some mi"
        "snd (record_screen e cfg params w) = snd (getMonitorBounds e mi w1)"
    | (one_monitor) mi d ff b where "record_monitorIndex params = Some mi"
        "snd (record_screen e cfg params w)
           = snd (record_capture e ff d (record_fps params) (Some mi) (Some b)
                    (snd (getMonitorBounds e mi w1)))"
    unfolding w1_def [symmetric] using u1 by metis
  then show ?thesis
  proof cases
    case early
    then show ?thesis by (simp add: record_screen_temp_paths_def split: option.split)
  next
    case all_displays
    define rp where "rp = record_outputPath e w"
    have rp1: "record_outputPath e w1 = rp"
      unfolding rp_def using u1 by (rule paths_depend_on_uuids)
    have tp: "record_screen_temp_paths e params w (snd (record_screen e cfg params w)) = [rp]"
      using all_displays u1
      by (simp add: record_screen_temp_paths_def record_capture_uuids rp_def)
    obtain b where b: "trace (snd (record_screen e cfg params w)) = trace w1 @ b"
      using all_displays(2) record_capture_extends by metis
    have cnt: "unlink_count rp w (snd (record_screen e cfg params w)) = 1"
      unfolding unlink_count_def new_events_trans [OF a b]
      using c1 [of rp] record_capture_unlinks [of w1 e ff d "record_fps params" None None rp]
      by (simp add: all_displays(2) rp1)
    have fl: "\<not> unlink_fails e rp \<longrightarrow> files (snd (record_screen e cfg params w)) rp = None"
      by (simp add: all_displays(2) record_capture_files rp1)
    have "rp \<noteq> bp"
      unfolding rp_def bp_def using record_paths_distinct [of e w w] by auto
    then show ?thesis using tp cnt fl by (simp add: bp_def)
  next
    case no_bounds
    have tp: "record_screen_temp_paths e params w (snd (record_screen e cfg params w)) = [bp]"
      using no_bounds u1
      by (simp add: record_screen_temp_paths_def getMonitorBounds_uuids bp_def)
    obtain b where b: "trace (snd (record_screen e cfg params w)) = trace w1 @ b"
      using no_bounds(2) getMonitorBounds_extends by metis
    have cnt: "unlink_count bp w (snd (record_screen e cfg params w))
        = (if writeFile_error e bp = None \<and> (\<exists>out. exec_outcome e (powershell_cmd bp) = Inr out)
              \<and> unlink_fails e bp then 2 else 1)"
      unfolding unlink_count_def new_events_trans [OF a b]
      using c1 [of bp] getMonitorBounds_unlinks [of w1 e mi bp]
      by (simp add: no_bounds(2) bp1)
    have fl: "\<not> unlink_fails e bp \<longrightarrow> files (snd (record_screen e cfg params w)) bp = None"
      by (simp add: no_bounds(2) getMonitorBounds_files bp1)
    show ?thesis using tp cnt fl by (simp add: bp_def)
  next
    case one_monitor
    define w2 where "w2 = snd (getMonitorBounds e mi w1)"
    define rp where "rp = record_outputPath e (snd (next_uuid e w))"
    have u2: "uuids w2 = Suc (uuids w)"
      by (simp add: w2_def getMonitorBounds_uuids u1)
    have rp2: "record_outputPath e w2 = rp"
      unfolding rp_def using u2 by (intro paths_depend_on_uuids) simp
    have ne: "bp \<noteq> rp"
      unfolding rp_def bp_def by (rule record_paths_distinct)
    have tp: "record_screen_temp_paths e params w (snd (record_screen e cfg params w)) = [bp, rp]"
      using one_monitor
      by (simp add: record_screen_temp_paths_def record_capture_uuids w2_def [symmetric] u2
          bp_def rp_def)
    obtain tb where tb: "trace w2 = trace w1 @ tb"
      unfolding w2_def using getMonitorBounds_extends by blast
    obtain c where c: "trace (snd (record_screen e cfg params w)) = trace w2 @ c"
      using one_monitor(2) record_capture_extends unfolding w2_def [symmetric] by metis
    have ab: "trace w2 = trace w @ (a @ tb)" using a tb by simp
    have ev: "new_events w (snd (record_screen e cfg params w))
        = new_events w w1 @ new_events w1 w2 @ new_events w2 (snd (record_screen e cfg params w))"
      using new_events_trans [OF ab c] new_events_trans [OF a tb] by simp
    have cnt_bp: "unlink_count bp w (snd (record_screen e cfg params w))
        = (if writeFile_error e bp = None \<and> (\<exists>out. exec_outcome e (powershell_cmd bp) = Inr out)
              \<and> unlink_fails e bp then 2 else 1)"
      unfolding unlink_count_def ev
      using c1 [of bp] getMonitorBounds_unlinks [of w1 e mi bp]
        record_capture_unlinks [of w2 e ff d "record_fps params" "Some mi" "Some b" bp] ne
      by (simp add: one_monitor(2) w2_def [symmetric] bp1 rp2)
    have cnt_rp: "unlink_count rp w (snd (record_screen e cfg params w)) = 1"
      unfolding unlink_count_def ev
      using c1 [of rp] getMonitorBounds_unlinks [of w1 e mi rp]
        record_capture_unlinks [of w2 e ff d "record_fps params" "Some mi" "Some b" rp] ne
      by (simp add: one_monitor(2) w2_def [symmetric] bp1 rp2)
    have fl_bp: "\<not> unlink_fails e bp \<longrightarrow> files (snd (record_screen e cfg params w)) bp = None"
      using ne
      by (simp add: one_monitor(2) w2_def [symmetric] record_capture_files_other rp2)
         (simp add: w2_def getMonitorBounds_files bp1)
    have fl_rp: "\<not> unlink_fails e rp \<longrightarrow> files (snd (record_screen e cfg params w)) rp = None"
      by (simp add: one_monitor(2) w2_def [symmetric] record_capture_files rp2)
    show ?thesis using tp cnt_bp cnt_rp fl_bp fl_rp ne by (simp add: bp_def)
  qed
qed

text \<open>
  Claim C2, as amended. In every invocation of \<open>list_monitors\<close>, of the bounds lookup,
  of \<open>take_screenshot\<close> and of \<open>record_screen\<close>, and on every exit, the deletion of
  every temp path allocated during the invocation is attempted at least once and at
  most twice. It is attempted exactly once except on two exits, where it is attempted
  twice: in \<open>take_screenshot\<close> when building the image result throws after the cleanup,
  and in the bounds lookup when its script has run and the first, synchronous deletion
  throws. A failed deletion is swallowed; a temp file whose deletion does not fail is
  gone from disk when the invocation returns.
\<close>

theorem temp_artifacts_are_deleted_on_every_exit:
  "(unlink_count (list_monitors_scriptPath e w) w (snd (list_monitors e w)) = 1
      \<and> (\<not> unlink_fails e (list_monitors_scriptPath e w) \<longrightarrow>
           files (snd (list_monitors e w)) (list_monitors_scriptPath e w) = None))
   \<and> (unlink_count (getMonitorBounds_scriptPath e w) w (snd (getMonitorBounds e mi w))
        = (if writeFile_error e (getMonitorBounds_scriptPath e w) = None
              \<and> (\<exists>out. exec_outcome e (powershell_cmd (getMonitorBounds_scriptPath e w)) = Inr out)
              \<and> unlink_fails e (getMonitorBounds_scriptPath e w)
           then 2 else 1)
      \<and> (\<not> unlink_fails e (getMonitorBounds_scriptPath e w) \<longrightarrow>
           files (snd (getMonitorBounds e mi w)) (getMonitorBounds_scriptPath e w) = None))
   \<and> (\<forall>p\<in>{screenshot_outputPath e cfg w, screenshot_scriptPath e w}.
        unlink_count p w (snd (take_screenshot e cfg params w))
          = (if is_error (fst (take_screenshot e cfg params w))
                \<and> (\<exists>q. EImageResult q \<in> set (new_events w (snd (take_screenshot e cfg params w))))
             then 2 else 1)
        \<and> (\<not> unlink_fails e p \<longrightarrow> files (snd (take_screenshot e cfg params w)) p = None))
   \<and> (\<forall>p\<in>set (record_screen_temp_paths e params w (snd (record_screen e cfg params w))).
        unlink_count p w (snd (record_screen e cfg params w))
          = (if p = getMonitorBounds_scriptPath e w
                \<and> writeFile_error e p = None
                \<and> (\<exists>out. exec_outcome e (powershell_cmd p) = Inr out)
                \<and> unlink_fails e p
             then 2 else 1)
        \<and> (\<not> unlink_fails e p \<longrightarrow> files (snd (record_screen e cfg params w)) p = None))"
proof -
  let ?S = "\<lambda>p. unlink_count p w (snd (take_screenshot e cfg params w))
          = (if is_error (fst (take_screenshot e cfg params w))
                \<and> (\<exists>q. EImageResult q \<in> set (new_events w (snd (take_screenshot e cfg params w))))
             then 2 else 1)
        \<and> (\<not> unlink_fails e p \<longrightarrow> files (snd (take_screenshot e cfg params w)) p = None)"
  have s: "\<forall>p\<in>{screenshot_outputPath e cfg w, screenshot_scriptPath e w}. ?S p"
  proof (intro ballI)
    fix p
    assume "p \<in> {screenshot_outputPath e cfg w, screenshot_scriptPath e w}"
    then have "p = screenshot_outputPath e cfg w \<or> p = screenshot_scriptPath e w"
      by blast
    then show "?S p" by (rule take_screenshot_cleanup)
  qed
  show ?thesis
    by (rule conjI [OF list_monitors_cleanup
          conjI [OF getMonitorBounds_cleanup conjI [OF s record_screen_cleanup]]])
qed

lemma take_screenshot_host_image_fails:
  "is_error (fst (take_screenshot host_image_fails default_config no_params world0))"
  "EImageResult ''media/screenshot.png''
     \<in> set (new_events world0 (snd (take_screenshot host_image_fails default_config no_params world0)))"
  by (simp_all add: take_screenshot_eval no_params_def host_image_fails_def host_def new_events_def)

text \<open>
  Claim C2 as it is written fails. When \<open>imageResultFromFile\<close> throws,
  \<open>take_screenshot\<close> has already deleted its temp files in the \<open>try\<close> block and deletes
  them again in the \<open>catch\<close> block: the deletion of the output path is attempted twice.
  And when a deletion fails, the failure is swallowed and the file stays on disk.
\<close>

theorem temp_artifacts_deleted_exactly_once_counterexample:
  "unlink_count (screenshot_outputPath host_image_fails default_config world0) world0
     (snd (take_screenshot host_image_fails default_config no_params world0)) = 2
   \<and> files (snd (list_monitors host_locked world0)) (list_monitors_scriptPath host_locked world0)
       = Some ListMonitorsScript"
proof -
  have "unlink_count (screenshot_outputPath host_image_fails default_config world0) world0
     (snd (take_screenshot host_image_fails default_config no_params world0))
     = (if is_error (fst (take_screenshot host_image_fails default_config no_params world0))
           \<and> (\<exists>q. EImageResult q \<in> set (new_events world0
                   (snd (take_screenshot host_image_fails default_config no_params world0))))
        then 2 else 1)"
    using take_screenshot_cleanup
            [of "screenshot_outputPath host_image_fails default_config world0"
                host_image_fails default_config world0 no_params]
    by blast
  then have 1: "unlink_count (screenshot_outputPath host_image_fails default_config world0) world0
     (snd (take_screenshot host_image_fails default_config no_params world0)) = 2"
    using take_screenshot_host_image_fails by auto
  have 2: "files (snd (list_monitors host_locked world0)) (list_monitors_scriptPath host_locked world0)
       = Some ListMonitorsScript"
    by (simp add: list_monitors_def list_monitors_try_def Let_def split_beta files_sel fst_sel
        host_locked_def host_def)
  show ?thesis using 1 2 by blast
qed

lemma bounds_of_two_bounds:
  "bounds_of_output two_bounds (Fin 1)
     = Some \<lparr>b_x = Fin 1920, b_y = Fin 0, b_width = Fin 1280, b_height = Fin 1024\<rparr>"
  unfolding bounds_of_output_def output_lines_two_bounds
  by (simp add: js_eq_def parse_defs)

lemma record_screen_host_two_bounds:
  "snd (record_screen (host two_bounds) default_config duration5_monitor1_params world0)
     = snd (record_capture (host two_bounds) ''ffmpeg'' (Fin 5) (Fin 30) (Some (Fin 1))
              (Some \<lparr>b_x = Fin 1920, b_y = Fin 0, b_width = Fin 1280, b_height = Fin 1024\<rparr>)
              (snd (getMonitorBounds (host two_bounds) (Fin 1)
                      (snd (findFfmpeg (host two_bounds) None world0)))))"
proof -
  have f: "fst (findFfmpeg (host two_bounds) None world0) = Some ''ffmpeg''"
    by (simp add: findFfmpeg_sel candidates_def accepts_def truthy_path_def host_def)
  have g: "fst (getMonitorBounds (host two_bounds) (Fin 1) (snd (findFfmpeg (host two_bounds) None world0)))
      = Some \<lparr>b_x = Fin 1920, b_y = Fin 0, b_width = Fin 1280, b_height = Fin 1024\<rparr>"
    unfolding getMonitorBounds_result by (simp add: host_def bounds_of_two_bounds)
  show ?thesis
    using f g
    by (simp add: record_screen_def record_duration_def record_monitorIndex_def record_fps_def
        maxDuration_def duration5_monitor1_params_def params_of_def default_config_def
        truthy_path_def Let_def split_beta floor_eleven_halves)
qed

lemma record_screen_host_two_bounds_paths:
  "record_screen_temp_paths (host two_bounds) duration5_monitor1_params world0
     (snd (record_screen (host two_bounds) default_config duration5_monitor1_params world0))
     = [getMonitorBounds_scriptPath (host two_bounds) world0,
        record_outputPath (host two_bounds) (snd (next_uuid (host two_bounds) world0))]"
  unfolding record_screen_host_two_bounds
  by (simp add: record_screen_temp_paths_def record_capture_uuids getMonitorBounds_uuids
      findFfmpeg_sel record_monitorIndex_def duration5_monitor1_params_def params_of_def)

lemma take_screenshot_host_two_bounds:
  "\<not> is_error (fst (take_screenshot (host two_bounds) default_config duration5_monitor1_params world0))"
  by (simp add: take_screenshot_eval duration5_monitor1_params_def host_def)

text \<open>
  The amended claim C2 on a host where every call succeeds: each temp path is deleted
  once and is gone afterwards, in the four operations.
\<close>

theorem temp_artifacts_are_deleted_on_every_exit_witness:
  "unlink_count (list_monitors_scriptPath (host two_bounds) world0) world0
     (snd (list_monitors (host two_bounds) world0)) = 1
   \<and> files (snd (list_monitors (host two_bounds) world0))
       (list_monitors_scriptPath (host two_bounds) world0) = None
   \<and> unlink_count (getMonitorBounds_scriptPath (host two_bounds) world0) world0
       (snd (getMonitorBounds (host two_bounds) (Fin 1) world0)) = 1
   \<and> files (snd (getMonitorBounds (host two_bounds) (Fin 1) world0))
       (getMonitorBounds_scriptPath (host two_bounds) world0) = None
   \<and> unlink_count (screenshot_outputPath (host two_bounds) default_config world0) world0
       (snd (take_screenshot (host two_bounds) default_config duration5_monitor1_params world0)) = 1
   \<and> files (snd (take_screenshot (host two_bounds) default_config duration5_monitor1_params world0))
       (screenshot_outputPath (host two_bounds) default_config world0) = None
   \<and> unlink_count (screenshot_scriptPath (host two_bounds) world0) world0
       (snd (take_screenshot (host two_bounds) default_config duration5_monitor1_params world0)) = 1
   \<and> files (snd (take_screenshot (host two_bounds) default_config duration5_monitor1_params world0))
       (screenshot_scriptPath (host two_bounds) world0) = None
   \<and> unlink_count (getMonitorBounds_scriptPath (host two_bounds) world0) world0
       (snd (record_screen (host two_bounds) default_config duration5_monitor1_params world0)) = 1
   \<and> files (snd (record_screen (host two_bounds) default_config duration5_monitor1_params world0))
       (getMonitorBounds_scriptPath (host two_bounds) world0) = None
   \<and> unlink_count (record_outputPath (host two_bounds) (snd (next_uuid (host two_bounds) world0))) world0
       (snd (record_screen (host two_bounds) default_config duration5_monitor1_params world0)) = 1
   \<and> files (snd (record_screen (host two_bounds) default_config duration5_monitor1_params world0))
       (record_outputPath (host two_bounds) (snd (next_uuid (host two_bounds) world0))) = None"
proof -
  have nf: "\<not> unlink_fails (host two_bounds) p" for p
    by (simp add: host_def)
  note T = temp_artifacts_are_deleted_on_every_exit
             [where e="host two_bounds" and w=world0 and mi="Fin 1" and cfg=default_config
               and params=duration5_monitor1_params]
  note L = T [THEN conjunct1]
  note B = T [THEN conjunct2, THEN conjunct1]
  note S = T [THEN conjunct2, THEN conjunct2, THEN conjunct1]
  note R = T [THEN conjunct2, THEN conjunct2, THEN conjunct2]
  note ok = take_screenshot_host_two_bounds
  have l1: "unlink_count (list_monitors_scriptPath (host two_bounds) world0) world0
     (snd (list_monitors (host two_bounds) world0)) = 1"
    by (rule L [THEN conjunct1])
  have l2: "files (snd (list_monitors (host two_bounds) world0))
       (list_monitors_scriptPath (host two_bounds) world0) = None"
    by (rule L [THEN conjunct2, THEN mp, OF nf])
  have b1: "unlink_count (getMonitorBounds_scriptPath (host two_bounds) world0) world0
       (snd (getMonitorBounds (host two_bounds) (Fin 1) world0)) = 1"
    unfolding B [THEN conjunct1] using nf by (simp only: if_False HOL.simp_thms)
  have b2: "files (snd (getMonitorBounds (host two_bounds) (Fin 1) world0))
       (getMonitorBounds_scriptPath (host two_bounds) world0) = None"
    by (rule B [THEN conjunct2, THEN mp, OF nf])
  have so: "screenshot_outputPath (host two_bounds) default_config world0
      \<in> {screenshot_outputPath (host two_bounds) default_config world0,
         screenshot_scriptPath (host two_bounds) world0}"
    by (rule insertI1)
  have ss: "screenshot_scriptPath (host two_bounds) world0
      \<in> {screenshot_outputPath (host two_bounds) default_config world0,
         screenshot_scriptPath (host two_bounds) world0}"
    by (rule insertI2) (rule insertI1)
  have s1: "unlink_count (screenshot_outputPath (host two_bounds) default_config world0) world0
       (snd (take_screenshot (host two_bounds) default_config duration5_monitor1_params world0)) = 1"
    unfolding S [THEN bspec, OF so, THEN conjunct1] using ok by (simp only: if_False HOL.simp_thms)
  have s2: "files (snd (take_screenshot (host two_bounds) default_config duration5_monitor1_params world0))
       (screenshot_outputPath (host two_bounds) default_config world0) = None"
    by (rule S [THEN bspec, OF so, THEN conjunct2, THEN mp, OF nf])
  have s3: "unlink_count (screenshot_scriptPath (host two_bounds) world0) world0
       (snd (take_screenshot (host two_bounds) default_config duration5_monitor1_params world0)) = 1"
    unfolding S [THEN bspec, OF ss, THEN conjunct1] using ok by (simp only: if_False HOL.simp_thms)
  have s4: "files (snd (take_screenshot (host two_bounds) default_config duration5_monitor1_params world0))
       (screenshot_scriptPath (host two_bounds) world0) = None"
    by (rule S [THEN bspec, OF ss, THEN conjunct2, THEN mp, OF nf])
  have rb: "getMonitorBounds_scriptPath (host two_bounds) world0
      \<in> set (record_screen_temp_paths (host two_bounds) duration5_monitor1_params world0
           (snd (record_screen (host two_bounds) default_config duration5_monitor1_params world0)))"
    unfolding record_screen_host_two_bounds_paths by (simp only: list.set insertI1)
  have rr: "record_outputPath (host two_bounds) (snd (next_uuid (host two_bounds) world0))
      \<in> set (record_screen_temp_paths (host two_bounds) duration5_monitor1_params world0
           (snd (record_screen (host two_bounds) default_config duration5_monitor1_params world0)))"
    unfolding record_screen_host_two_bounds_paths by (simp only: list.set insertI1 insertI2)
  have r1: "unlink_count (getMonitorBounds_scriptPath (host two_bounds) world0) world0
       (snd (record_screen (host two_bounds) default_config duration5_monitor1_params world0)) = 1"
    unfolding R [THEN bspec, OF rb, THEN conjunct1] using nf by (simp only: if_False HOL.simp_thms)
  have r2: "files (snd (record_screen (host two_bounds) default_config duration5_monitor1_params world0))
       (getMonitorBounds_scriptPath (host two_bounds) world0) = None"
    by (rule R [THEN bspec, OF rb, THEN conjunct2, THEN mp, OF nf])
  have r3: "unlink_count (record_outputPath (host two_bounds) (snd (next_uuid (host two_bounds) world0))) world0
       (snd (record_screen (host two_bounds) default_config duration5_monitor1_params world0)) = 1"
    unfolding R [THEN bspec, OF rr, THEN conjunct1] using nf by (simp only: if_False HOL.simp_thms)
  have r4: "files (snd (record_screen (host two_bounds) default_config duration5_monitor1_params world0))
       (record_outputPath (host two_bounds) (snd (next_uuid (host two_bounds) world0))) = None"
    by (rule R [THEN bspec, OF rr, THEN conjunct2, THEN mp, OF nf])
  show ?thesis
    by (intro conjI l1 l2 b1 b2 s1 s2 s3 s4 r1 r2 r3 r4)
qed

section \<open>C6: the bounds of a monitor\<close>










section \<open>C1: the index of a monitor descriptor\<close>





section \<open>The capture point of record_screen\<close>

lemma captures_simps [simp]:
  "captures [] = []"
  "captures (xs @ ys) = captures xs @ captures ys"
  "captures (ECapture ff args # evs) = (ff, args) # captures evs"
  "captures (EWriteFile p c # evs) = captures evs"
  "captures (EExec cmd # evs) = captures evs"
  "captures (EProbe cand sh # evs) = captures evs"
  "captures (EUnlink p # evs) = captures evs"
  "captures (EStat p # evs) = captures evs"
  "captures (EReadFile p # evs) = captures evs"
  "captures (ESave sub fn # evs) = captures evs"
  "captures (EImageResult p # evs) = captures evs"
  "captures (ESleep t # evs) = captures evs"
  "captures (ELogInfo msg # evs) = captures evs"
  "captures (ELogWarn msg # evs) = captures evs"
  "captures (ERegisterTool n # evs) = captures evs"
  by (simp_all add: captures_def)

lemma captures_probe_events [simp]: "captures (map probe_event cs) = []"
  by (induction cs) (simp_all add: probe_event_def)

lemma sleeps_simps [simp]:
  "sleeps [] = []"
  "sleeps (xs @ ys) = sleeps xs @ sleeps ys"
  "sleeps (ESleep t # evs) = t # sleeps evs"
  "sleeps (ECapture ff args # evs) = sleeps evs"
  "sleeps (EWriteFile p c # evs) = sleeps evs"
  "sleeps (EExec cmd # evs) = sleeps evs"
  "sleeps (EProbe cand sh # evs) = sleeps evs"
  "sleeps (EUnlink p # evs) = sleeps evs"
  "sleeps (EStat p # evs) = sleeps evs"
  "sleeps (EReadFile p # evs) = sleeps evs"
  "sleeps (ESave sub fn # evs) = sleeps evs"
  "sleeps (EImageResult p # evs) = sleeps evs"
  "sleeps (ELogInfo msg # evs) = sleeps evs"
  "sleeps (ELogWarn msg # evs) = sleeps evs"
  "sleeps (ERegisterTool n # evs) = sleeps evs"
  by (simp_all add: sleeps_def)











lemma recording_success_values [simp]:
  "json_get ''duration'' (recording_success str d fps mi mb saved) = JNum d"
  "json_get ''fps'' (recording_success str d fps mi mb saved) = JNum fps"
  by (simp_all add: recording_success_def Let_def)


lemma path_join_not_Nil [simp]: "path_join dir file \<noteq> []"
  by (simp add: path_join_def)






section \<open>C3: verification of the recording\<close>




lemma sample_durations:
  "Math_min (Math_max (Math_round (Fin 5)) (Fin 1)) (maxDuration default_config) = Fin 5"
  "Math_min (Math_max (Math_round NaN) (Fin 1)) (maxDuration default_config) = NaN"
  by (simp_all add: maxDuration_def default_config_def floor_eleven_halves)





section \<open>C5 and C10: the clamped values in the tools\<close>
















lemma sample_rounds:
  "round (57 / 10 :: rat) = 6" "round (59 / 2 :: rat) = 30" "round (120 :: rat) = 120"
  "round (5 :: rat) = 5"
  by (simp_all add: round_def floor_eq_iff)





end
